theory Spec2Isabelle
  imports Main
begin

section \<open>Screen geometry (backend/src/services/computer-use/screen.ts)\<close>

text \<open>
  The class \<open>Screen\<close> computes, from the resolution of a screenshot, the square tiles the
  screenshot is cropped into, and maps normalized coordinates of a tile back to the screen.
  Widths, heights and coordinates are JavaScript numbers holding integers; they are
  modelled as \<open>int\<close>.
\<close>

record Resolution =
  width :: int
  height :: int

record Coordinate =
  coord_x :: int
  coord_y :: int

record Box =
  ymin :: int
  xmin :: int
  ymax :: int
  xmax :: int

datatype CropDirection = Vertical | Horizontal

record Screen =
  resolution :: Resolution
  cropDirection :: CropDirection
  cropSquareSideLength :: int
  squareStartingPoints :: "Coordinate list"

text \<open>
  \<open>Math.round(n * 0.5)\<close> for an integer \<open>n\<close>: the product is exact in doubles and
  \<open>Math.round\<close> rounds a tie upwards.
\<close>

definition roundHalf :: "int \<Rightarrow> int" where
  "roundHalf n = (n + 1) div 2"

text \<open>
  The two \<open>while\<close> loops of \<open>setCropConfiguration\<close>: \<open>v\<close> is the loop variable
  (\<open>x\<close> or \<open>y\<close>), \<open>mk\<close> builds the pushed point from it, \<open>limit\<close> is the length of
  the long axis. With \<open>cropStep = 0\<close> the loop never ends, so the result is an option
  and \<open>None\<close> stands for a loop that does not return.
\<close>

partial_function (option) pushStartingPoints ::
  "(int \<Rightarrow> Coordinate) \<Rightarrow> int \<Rightarrow> int \<Rightarrow> int \<Rightarrow> int \<Rightarrow> Coordinate list
     \<Rightarrow> Coordinate list option" where
  "pushStartingPoints mk cropStep side limit v pts =
     (if v + side < limit
      then pushStartingPoints mk cropStep side limit (v + cropStep) (pts @ [mk v])
      else Some pts)"

declare pushStartingPoints.simps [code]

definition pointOnX :: "int \<Rightarrow> Coordinate" where
  "pointOnX v = \<lparr>coord_x = v, coord_y = 0\<rparr>"

definition pointOnY :: "int \<Rightarrow> Coordinate" where
  "pointOnY v = \<lparr>coord_x = 0, coord_y = v\<rparr>"

text \<open>The constructor of \<open>Screen\<close>, which only calls \<open>setCropConfiguration\<close>.\<close>

definition setCropConfiguration :: "Resolution \<Rightarrow> Screen option" where
  "setCropConfiguration res =
     (let dir = (if width res > height res then Vertical else Horizontal);
          side = min (width res) (height res);
          cropStep = roundHalf side
      in (case dir of
            Vertical \<Rightarrow>
              (case pushStartingPoints pointOnX cropStep side (width res) cropStep [pointOnX 0] of
                 None \<Rightarrow> None
               | Some pts \<Rightarrow>
                   (let finalX = width res - side;
                        pts' = (if finalX > coord_x (last pts) then pts @ [pointOnX finalX] else pts)
                    in Some \<lparr>resolution = res, cropDirection = dir,
                             cropSquareSideLength = side, squareStartingPoints = pts'\<rparr>))
          | Horizontal \<Rightarrow>
              (case pushStartingPoints pointOnY cropStep side (height res) cropStep [pointOnY 0] of
                 None \<Rightarrow> None
               | Some pts \<Rightarrow>
                   (let finalY = height res - side;
                        pts' = (if finalY > coord_y (last pts) then pts @ [pointOnY finalY] else pts)
                    in Some \<lparr>resolution = res, cropDirection = dir,
                             cropSquareSideLength = side, squareStartingPoints = pts'\<rparr>))))"

text \<open>
  \<open>Math.round((c / 1000) * s)\<close> for integers \<open>c\<close> and \<open>s\<close>, computed in IEEE doubles.
  The exact quotient \<open>c * s / 1000\<close> is a multiple of \<open>1/1000\<close>, so away from an exact
  tie the double rounds to the same integer as the exact value. At an exact tie
  (\<open>c * s mod 1000 = 500\<close>) the double product can fall just below the tie (for
  \<open>c = 145\<close>, \<open>s = 100\<close> it is \<open>14.499999999999998\<close>), and then \<open>Math.round\<close> returns the
  lower integer. The predicate \<open>below\<close> says for which ties the double falls below;
  everything proved here holds for every such predicate.
\<close>

definition unnormalize :: "(int \<Rightarrow> int \<Rightarrow> bool) \<Rightarrow> int \<Rightarrow> int \<Rightarrow> int" where
  "unnormalize below c s =
     (if (c * s) mod 1000 = 500 \<and> below c s then (c * s) div 1000
      else (c * s + 500) div 1000)"

definition getBoxCenter :: "Box \<Rightarrow> Coordinate" where
  "getBoxCenter box =
     \<lparr>coord_x = (xmin box + xmax box) div 2, coord_y = (ymin box + ymax box) div 2\<rparr>"

datatype BoxOrCoordinate = IsBox Box | IsCoordinate Coordinate

text \<open>
  \<open>toScreenCoordinate\<close>. An index outside \<open>squareStartingPoints\<close> makes \<open>startPoint\<close>
  undefined and the property access throws a TypeError: the result \<open>None\<close>.
\<close>

definition toScreenCoordinate ::
  "(int \<Rightarrow> int \<Rightarrow> bool) \<Rightarrow> Screen \<Rightarrow> nat \<Rightarrow> BoxOrCoordinate \<Rightarrow> Coordinate option" where
  "toScreenCoordinate below scr index boxOrCoordinate =
     (let center = (case boxOrCoordinate of IsBox b \<Rightarrow> getBoxCenter b | IsCoordinate c \<Rightarrow> c);
          unnormalizedX = unnormalize below (coord_x center) (cropSquareSideLength scr);
          unnormalizedY = unnormalize below (coord_y center) (cropSquareSideLength scr)
      in if index < length (squareStartingPoints scr)
         then (let startPoint = squareStartingPoints scr ! index
               in Some \<lparr>coord_x = coord_x startPoint + unnormalizedX,
                        coord_y = coord_y startPoint + unnormalizedY\<rparr>)
         else None)"

record ScreenRectangle =
  rectLeft :: int
  rectTop :: int
  rectWidth :: int
  rectHeight :: int

definition toScreenRectangle ::
  "(int \<Rightarrow> int \<Rightarrow> bool) \<Rightarrow> Screen \<Rightarrow> nat \<Rightarrow> Box \<Rightarrow> ScreenRectangle option" where
  "toScreenRectangle below scr index box =
     (case toScreenCoordinate below scr index
             (IsCoordinate \<lparr>coord_x = xmin box, coord_y = ymin box\<rparr>) of
        None \<Rightarrow> None
      | Some leftTop \<Rightarrow>
          (case toScreenCoordinate below scr index
                  (IsCoordinate \<lparr>coord_x = xmax box, coord_y = ymax box\<rparr>) of
             None \<Rightarrow> None
           | Some rightBottom \<Rightarrow>
               Some \<lparr>rectLeft = coord_x leftTop, rectTop = coord_y leftTop,
                     rectWidth = coord_x rightBottom - coord_x leftTop,
                     rectHeight = coord_y rightBottom - coord_y leftTop\<rparr>))"

text \<open>
  The arithmetic floor of the midpoint of a de-normalized rectangle, which the spec
  compares the de-normalized center with.
\<close>

definition rectangleMidpoint :: "ScreenRectangle \<Rightarrow> Coordinate" where
  "rectangleMidpoint r =
     \<lparr>coord_x = (rectLeft r + (rectLeft r + rectWidth r)) div 2,
      coord_y = (rectTop r + (rectTop r + rectHeight r)) div 2\<rparr>"

section \<open>JavaScript values and conversions\<close>

text \<open>
  Strings are lists of characters; a character stands for one UTF-16 code unit below 256.
  \<open>decimal\<close> prints a natural number as JavaScript prints an integer in a template
  string.
\<close>

definition digitChar :: "nat \<Rightarrow> char" where
  "digitChar d = (if d < 10 then ''0123456789'' ! d else CHR ''?'')"

fun decimal :: "nat \<Rightarrow> string" where
  "decimal n = (if n < 10 then [digitChar n] else decimal (n div 10) @ [digitChar (n mod 10)])"

declare decimal.simps [simp del]

definition decimalInt :: "int \<Rightarrow> string" where
  "decimalInt i = (if i < 0 then CHR ''-'' # decimal (nat (- i)) else decimal (nat i))"

text \<open>
  A JavaScript number, given by what \<open>Number::toString\<close> prints: the sign, the decimal
  digits \<open>d\<^sub>1 \<dots> d\<^sub>k\<close> of the shortest decimal that reads back as the number, and the
  position \<open>n\<close> of the decimal point, so that the number is \<open>0.d\<^sub>1 \<dots> d\<^sub>k * 10\<^sup>n\<close>. No
  digits stand for zero. \<open>numberToString\<close> follows the steps of \<open>Number::toString\<close> of
  the language specification.
\<close>

datatype JsNumber = JsNumber (negative: bool) (digits: "nat list") (pointPosition: int)

definition numberToString :: "JsNumber \<Rightarrow> string" where
  "numberToString x =
     (let ds = digits x; n = pointPosition x; k = int (length ds)
      in if ds = [] then ''0''
         else (if negative x then ''-'' else '''') @
           (if k \<le> n \<and> n \<le> 21
              then map digitChar ds @ replicate (nat (n - k)) CHR ''0''
            else if 0 < n \<and> n \<le> 21
              then map digitChar (take (nat n) ds) @ ''.'' @ map digitChar (drop (nat n) ds)
            else if - 6 < n \<and> n \<le> 0
              then ''0.'' @ replicate (nat (- n)) CHR ''0'' @ map digitChar ds
            else (let expo = (if n - 1 < 0 then ''-'' else ''+'') @ decimal (nat \<bar>n - 1\<bar>)
                  in if k = 1 then map digitChar ds @ ''e'' @ expo
                     else map digitChar (take 1 ds) @ ''.'' @ map digitChar (drop 1 ds)
                            @ ''e'' @ expo)))"

text \<open>The values \<open>JSON.parse\<close> returns. An object lists its own properties.\<close>

datatype Json =
    JNull
  | JBool bool
  | JNum JsNumber
  | JStr string
  | JArr "Json list"
  | JObj "(string \<times> Json) list"

text \<open>
  \<open>String(v)\<close>: an array prints its elements separated by commas, a \<open>null\<close> element as
  the empty string; an object prints as \<open>[object Object]\<close>.
\<close>

fun jsString :: "Json \<Rightarrow> string"
  and joinElements :: "Json list \<Rightarrow> string" where
  "jsString JNull = ''null''"
| "jsString (JBool b) = (if b then ''true'' else ''false'')"
| "jsString (JNum x) = numberToString x"
| "jsString (JStr s) = s"
| "jsString (JArr vs) = joinElements vs"
| "jsString (JObj ps) = ''[object Object]''"
| "joinElements [] = ''''"
| "joinElements (v # vs) =
     (case v of JNull \<Rightarrow> '''' | _ \<Rightarrow> jsString v) @
     (case vs of [] \<Rightarrow> '''' | _ \<Rightarrow> CHR '','' # joinElements vs)"

text \<open>
  The characters \<open>String.prototype.trim\<close> and \<open>parseInt\<close> skip, among the code units
  below 256: tab, line feed, vertical tab, form feed, carriage return, space and the
  no-break space.
\<close>

definition isWhiteSpace :: "char \<Rightarrow> bool" where
  "isWhiteSpace c = (of_char c \<in> {9, 10, 11, 12, 13, 32, 160 :: nat})"




text \<open>\<open>String.prototype.split\<close> with a one-character separator.\<close>

fun splitOn :: "char \<Rightarrow> string \<Rightarrow> string list" where
  "splitOn d [] = [[]]"
| "splitOn d (c # cs) =
     (if c = d then [] # splitOn d cs
      else (case splitOn d cs of [] \<Rightarrow> [[c]] | l # ls \<Rightarrow> (c # l) # ls))"

definition newline :: char where
  "newline = CHR 0x0A"

text \<open>\<open>s.startsWith(p)\<close>.\<close>

definition startsWith :: "string \<Rightarrow> string \<Rightarrow> bool" where
  "startsWith s p = (take (length p) s = p)"



section \<open>Messages (shared/src/types.ts)\<close>

datatype SessionStatus = Running | Pending | Stagnant | Failed

datatype Role = User | Model | Tool | Workflow | GroundingModel

record FunctionCall =
  fc_id :: string
  fc_name :: string
  fc_args :: Json

datatype ToolOutcome = Output string | Error string

record FunctionResponse =
  fr_id :: string
  fr_name :: string
  fr_response :: ToolOutcome

datatype PersistentMessageContentBlock =
    ThoughtBlock string
  | TextBlock string
  | FunctionCallBlock FunctionCall
  | ImageBlock string
  | FunctionResponseBlock FunctionResponse

datatype ToolReviewChoice = AcceptSession | AcceptOnce | RejectOnce

datatype ToolReview =
    ToolReviewRequest string FunctionCall FunctionCall
  | ToolReviewResponse string ToolReviewChoice

text \<open>
  \<open>forDisplay\<close> is an optional boolean: \<open>Some True\<close> shows the message to the user only,
  \<open>Some False\<close> sends it to the model only, \<open>None\<close> (undefined) does both. The timestamp
  is kept as the string it is serialized to.
\<close>

record PersistentMessage =
  pm_id :: string
  pm_role :: Role
  pm_content :: "PersistentMessageContentBlock list"
  pm_toolReview :: "ToolReview option"
  pm_forDisplay :: "bool option"
  pm_timestamp :: string

section \<open>The session repository (backend/src/repository/session.ts)\<close>

text \<open>
  The repository keeps one file \<open>messages.jsonl\<close> per session; \<open>MessageFiles\<close> maps a
  session id to the content of its file, \<open>None\<close> when there is no file.
  \<open>JSON.stringify\<close> and \<open>JSON.parse\<close> on messages are parameters of the model:
  \<open>parse\<close> returns \<open>None\<close> where \<open>JSON.parse\<close> throws a SyntaxError.
\<close>

type_synonym MessageFiles = "string \<Rightarrow> string option"

datatype RepositoryError = FileNotFound | SyntaxError string

definition appendMessages ::
  "(PersistentMessage \<Rightarrow> string) \<Rightarrow> MessageFiles \<Rightarrow> string \<Rightarrow> PersistentMessage list
     \<Rightarrow> MessageFiles" where
  "appendMessages stringify files sessionId messages =
     (let messageLines = map (\<lambda>message. stringify message @ [newline]) messages
      in files(sessionId \<mapsto>
           (case files sessionId of None \<Rightarrow> [] | Some content \<Rightarrow> content) @ concat messageLines))"

text \<open>\<open>line.trim() !== ''\<close>.\<close>

definition nonBlank :: "string \<Rightarrow> bool" where
  "nonBlank line = (dropWhile isWhiteSpace line \<noteq> [])"

text \<open>\<open>lines.map(JSON.parse)\<close>: the first line that does not parse throws.\<close>

fun parseLines ::
  "(string \<Rightarrow> PersistentMessage option) \<Rightarrow> string list \<Rightarrow> RepositoryError + PersistentMessage list" where
  "parseLines parse [] = Inr []"
| "parseLines parse (line # rest) =
     (case parse line of
        None \<Rightarrow> Inl (SyntaxError line)
      | Some message \<Rightarrow>
          (case parseLines parse rest of
             Inl e \<Rightarrow> Inl e
           | Inr messages \<Rightarrow> Inr (message # messages)))"

text \<open>
  \<open>getMessages\<close>. The optional parameter \<open>includeHidden\<close> is tested for truth, so
  undefined counts as \<open>False\<close>.
\<close>

definition getMessages ::
  "(string \<Rightarrow> PersistentMessage option) \<Rightarrow> MessageFiles \<Rightarrow> string \<Rightarrow> bool
     \<Rightarrow> RepositoryError + PersistentMessage list" where
  "getMessages parse files sessionId includeHidden =
     (case files sessionId of
        None \<Rightarrow> Inl FileNotFound
      | Some content \<Rightarrow>
          (case parseLines parse (filter nonBlank (splitOn newline content)) of
             Inl e \<Rightarrow> Inl e
           | Inr messages \<Rightarrow>
               Inr (if includeHidden then messages
                    else filter (\<lambda>message. pm_forDisplay message \<noteq> Some False) messages)))"

text \<open>
  A \<open>JSON.parse\<close> that knows the serializations of a table of messages and rejects every
  other line, as \<open>JSON.parse\<close> rejects a line cut short.
\<close>

definition parseTable :: "(string \<times> PersistentMessage) list \<Rightarrow> string \<Rightarrow> PersistentMessage option" where
  "parseTable table line = map_of table line"

section \<open>Recovering the history (backend/src/services/computer-use/interface.ts)\<close>

text \<open>
  A \<open>Part\<close> of the LLM interface: every field is optional; \<open>part_thought\<close> is the flag
  \<open>thought\<close>, absent when \<open>False\<close>.
\<close>

record InlineData =
  inline_data :: string
  inline_mimeType :: string

record Part =
  part_text :: "string option"
  part_thought :: bool
  part_functionCall :: "FunctionCall option"
  part_functionResponse :: "FunctionResponse option"
  part_inlineData :: "InlineData option"

definition emptyPart :: Part where
  "emptyPart = \<lparr>part_text = None, part_thought = False, part_functionCall = None,
                 part_functionResponse = None, part_inlineData = None\<rparr>"

definition textPart :: "string \<Rightarrow> Part" where
  "textPart s = emptyPart\<lparr>part_text := Some s\<rparr>"

definition thoughtPart :: "string \<Rightarrow> Part" where
  "thoughtPart s = emptyPart\<lparr>part_text := Some s, part_thought := True\<rparr>"

definition functionCallPart :: "FunctionCall \<Rightarrow> Part" where
  "functionCallPart fc = emptyPart\<lparr>part_functionCall := Some fc\<rparr>"

definition functionResponsePart :: "FunctionResponse \<Rightarrow> Part" where
  "functionResponsePart fr = emptyPart\<lparr>part_functionResponse := Some fr\<rparr>"

definition inlineDataPart :: "string \<Rightarrow> string \<Rightarrow> Part" where
  "inlineDataPart d m = emptyPart\<lparr>part_inlineData := Some \<lparr>inline_data = d, inline_mimeType = m\<rparr>\<rparr>"

datatype ContentRole = UserRole | ModelRole

record Content =
  content_role :: ContentRole
  content_parts :: "Part list"

text \<open>
  The errors of the conversion. \<open>ImagePathTypeError\<close> is the TypeError that \<open>path.join\<close>
  throws in \<open>getImage\<close> for the file name \<open>undefined\<close>, \<open>ImageNotFound\<close> the failure of
  reading the file.
\<close>

datatype InterfaceError =
    ImageSessionMismatch string string
  | ImagePathTypeError
  | ImageNotFound
  | NotImplemented
  | Repository RepositoryError

text \<open>
  \<open>persistentContentBlockToPart\<close>. \<open>getImage\<close> stands for reading the image file
  (as base64), \<open>None\<close> when the read fails. A source with no \<open>/\<close> after the session id
  leaves \<open>fileName\<close> undefined, and \<open>getImage\<close> throws before it reads anything.
\<close>

definition persistentContentBlockToPart ::
  "(string \<Rightarrow> string \<Rightarrow> string option) \<Rightarrow> PersistentMessageContentBlock \<Rightarrow> string
     \<Rightarrow> InterfaceError + Part" where
  "persistentContentBlockToPart getImage block sessionId =
     (case block of
        ThoughtBlock t \<Rightarrow> Inr (thoughtPart t)
      | TextBlock t \<Rightarrow> Inr (textPart t)
      | FunctionCallBlock fc \<Rightarrow> Inr (functionCallPart fc)
      | FunctionResponseBlock fr \<Rightarrow> Inr (functionResponsePart fr)
      | ImageBlock src \<Rightarrow>
          (if startsWith src ''internal://''
           then (let segments = splitOn CHR ''/'' (drop 11 src);
                     imageSessionId = (case segments of [] \<Rightarrow> [] | s # _ \<Rightarrow> s)
                 in if imageSessionId \<noteq> sessionId
                    then Inl (ImageSessionMismatch imageSessionId sessionId)
                    else (case segments of
                            _ # fileName # _ \<Rightarrow>
                              (case getImage imageSessionId fileName of
                                 None \<Rightarrow> Inl ImageNotFound
                               | Some d \<Rightarrow> Inr (inlineDataPart d ''image/png''))
                          | _ \<Rightarrow> Inl ImagePathTypeError))
           else Inl NotImplemented))"

text \<open>Mapping a function that may throw over a list; the first error in list order wins.\<close>

fun mapResult :: "('a \<Rightarrow> 'e + 'b) \<Rightarrow> 'a list \<Rightarrow> 'e + 'b list" where
  "mapResult f [] = Inr []"
| "mapResult f (x # xs) =
     (case f x of
        Inl e \<Rightarrow> Inl e
      | Inr y \<Rightarrow> (case mapResult f xs of Inl e \<Rightarrow> Inl e | Inr ys \<Rightarrow> Inr (y # ys)))"

text \<open>
  The closure \<open>getHistoryMessages\<close> of \<open>recoverHistory\<close>, on the messages read. The
  conversions of all blocks of all messages are started, in the order of the log,
  before any of them is awaited, and \<open>Promise.all\<close> rejects with the rejection that
  comes first in time. A conversion that throws without waiting for the file system
  (\<open>thrownAtOnce\<close>: every error but the failed read of a file) rejects within the same
  turn of the event loop, and among these the first in the order of the log is the
  first in time. A read that fails rejects only later, so it is the error of the
  whole only when no conversion throws at once.
\<close>

definition thrownAtOnce :: "InterfaceError + Part \<Rightarrow> bool" where
  "thrownAtOnce converted =
     (case converted of
        Inl ImageNotFound \<Rightarrow> False
      | Inl e \<Rightarrow> True
      | Inr part \<Rightarrow> False)"

definition getHistoryMessages ::
  "(string \<Rightarrow> string \<Rightarrow> string option) \<Rightarrow> string \<Rightarrow> PersistentMessage list
     \<Rightarrow> InterfaceError + Content list" where
  "getHistoryMessages getImage sessionId persistentMessages =
     (let messages = filter (\<lambda>message. pm_forDisplay message \<noteq> Some True) persistentMessages;
          convert = (\<lambda>block. persistentContentBlockToPart getImage block sessionId);
          started = concat (map (\<lambda>message. map convert (pm_content message)) messages)
      in case find thrownAtOnce started of
           Some (Inl e) \<Rightarrow> Inl e
         | _ \<Rightarrow>
             mapResult
               (\<lambda>message.
                  case mapResult convert (pm_content message) of
                    Inl e \<Rightarrow> Inl e
                  | Inr parts \<Rightarrow>
                      Inr \<lparr>content_role = (if pm_role message = Model then ModelRole else UserRole),
                           content_parts = parts\<rparr>)
               messages)"

text \<open>
  \<open>recoverHistory\<close> reads the whole log, hidden messages included, and converts it.
\<close>

definition recoverHistory ::
  "(string \<Rightarrow> PersistentMessage option) \<Rightarrow> (string \<Rightarrow> string \<Rightarrow> string option) \<Rightarrow> MessageFiles
     \<Rightarrow> string \<Rightarrow> InterfaceError + Content list" where
  "recoverHistory parse getImage files sessionId =
     (case getMessages parse files sessionId True of
        Inl e \<Rightarrow> Inl (Repository e)
      | Inr persistentMessages \<Rightarrow> getHistoryMessages getImage sessionId persistentMessages)"

section \<open>Grounding (detectElement and detectAndTransform)\<close>

text \<open>
  \<open>detectElement\<close> belongs to the module of the agent, \<open>agent.js\<close> in the imports of
  \<open>interface.ts\<close>; its source is the second file in
  \<open>services/computer-use/tool-computer/wait.ts\<close>. \<open>detectAndTransform\<close> is a method of
  \<open>BaseGroundableTool\<close> in \<open>groundable-tool.js\<close>, the source \<open>unnamed/part_000\<close>.
\<close>









section \<open>The tool catalog (services/computer-use/tool-computer)\<close>

text \<open>
  The catalog is the module \<open>tool-computer/index.js\<close>, the second file in
  \<open>tool-computer/scroll.ts\<close>; the tools are the classes of \<open>click\<close> (the second file in
  \<open>drag-and-drop.ts\<close>), \<open>type.ts\<close>, \<open>drag-and-drop.ts\<close>, \<open>key.ts\<close>, \<open>wait.ts\<close> and
  \<open>scroll.ts\<close>. A function declaration is kept as its name and its required parameters.
\<close>

datatype ComputerTool =
    ComputerClick | ComputerType | ComputerDragAndDrop | ComputerKey | ComputerWait
  | ComputerScroll

record FunctionDeclaration =
  fd_name :: string
  fd_required :: "string list"

definition functionDeclaration :: "ComputerTool \<Rightarrow> FunctionDeclaration" where
  "functionDeclaration tool =
     (case tool of
        ComputerClick \<Rightarrow>
          \<lparr>fd_name = ''computer_click'', fd_required = [''image_id'', ''element_description'']\<rparr>
      | ComputerType \<Rightarrow> \<lparr>fd_name = ''computer_type'', fd_required = [''text'']\<rparr>
      | ComputerDragAndDrop \<Rightarrow>
          \<lparr>fd_name = ''computer_drag_and_drop'',
           fd_required = [''starting_image_id'', ''starting_description'',
                          ''ending_image_id'', ''ending_description'']\<rparr>
      | ComputerKey \<Rightarrow> \<lparr>fd_name = ''computer_key'', fd_required = [''keys'']\<rparr>
      | ComputerWait \<Rightarrow> \<lparr>fd_name = ''computer_wait'', fd_required = [''time'']\<rparr>
      | ComputerScroll \<Rightarrow> \<lparr>fd_name = ''computer_scroll'', fd_required = [''clicks'']\<rparr>)"

text \<open>
  \<open>computerTools\<close>: the object built by \<open>Object.fromEntries\<close> from the five registered
  tools, as the list of its own properties in insertion order.
\<close>

definition computerTools :: "(string \<times> ComputerTool) list" where
  "computerTools =
     map (\<lambda>tool. (fd_name (functionDeclaration tool), tool))
       [ComputerClick, ComputerType, ComputerDragAndDrop, ComputerKey, ComputerWait]"

text \<open>The properties every object inherits from \<open>Object.prototype\<close>; \<open>in\<close> finds them too.\<close>

definition objectPrototypeNames :: "string list" where
  "objectPrototypeNames =
     [''constructor'', ''__defineGetter__'', ''__defineSetter__'', ''hasOwnProperty'',
      ''__lookupGetter__'', ''__lookupSetter__'', ''isPrototypeOf'', ''propertyIsEnumerable'',
      ''toString'', ''valueOf'', ''__proto__'', ''toLocaleString'']"

text \<open>
  \<open>validateImageElementPair\<close> and \<open>validate\<close>. \<open>schemaValidate\<close> stands for
  \<open>SchemaValidator.validate(this.functionDeclaration.parameters, args)\<close> of the core
  library; a result is an error only when it is a non-empty string.
\<close>

definition hasProperty :: "Json \<Rightarrow> string \<Rightarrow> bool" where
  "hasProperty v key = (case v of JObj ps \<Rightarrow> map_of ps key \<noteq> None | _ \<Rightarrow> False)"

definition validateImageElementPair :: "(Json \<Rightarrow> string option) \<Rightarrow> Json \<Rightarrow> string option" where
  "validateImageElementPair schemaValidate args =
     (case schemaValidate args of
        Some (c # cs) \<Rightarrow> Some (c # cs)
      | _ \<Rightarrow>
          (case args of
             JObj ps \<Rightarrow>
               if \<not> hasProperty args ''image_id'' \<and> hasProperty args ''element_description''
               then Some ''When element_description is provided, image_id must be provided''
               else if hasProperty args ''image_id'' \<and> \<not> hasProperty args ''element_description''
               then Some ''When image_id is provided, element_description must be provided''
               else None
           | JArr vs \<Rightarrow> None
           | _ \<Rightarrow> Some ''Arguments must be an object''))"

definition validate :: "(Json \<Rightarrow> string option) \<Rightarrow> ComputerTool \<Rightarrow> Json \<Rightarrow> string option" where
  "validate schemaValidate tool args =
     (case tool of
        ComputerType \<Rightarrow> validateImageElementPair schemaValidate args
      | ComputerScroll \<Rightarrow> validateImageElementPair schemaValidate args
      | _ \<Rightarrow> schemaValidate args)"

datatype ValidToolResult = ErrorString string | ValidTool ComputerTool | ValidateNotAFunction

definition getValidComputerTool :: "(Json \<Rightarrow> string option) \<Rightarrow> string \<Rightarrow> Json \<Rightarrow> ValidToolResult" where
  "getValidComputerTool schemaValidate name args =
     (case map_of computerTools name of
        Some tool \<Rightarrow>
          (case validate schemaValidate tool args of
             Some (c # cs) \<Rightarrow> ErrorString (c # cs)
           | _ \<Rightarrow> ValidTool tool)
      | None \<Rightarrow>
          if name \<in> set objectPrototypeNames then ValidateNotAFunction
          else ErrorString (''Tool does not exist: '' @ name))"

definition getComputerFunctionDeclarations :: "FunctionDeclaration list" where
  "getComputerFunctionDeclarations = map (\<lambda>(name, tool). functionDeclaration tool) computerTools"

section \<open>The agent loop (runAgent)\<close>

text \<open>
  \<open>runAgent\<close> is the second file in \<open>services/computer-use/tool-computer/wait.ts\<close>, the
  module \<open>agent.js\<close> of the imports.
\<close>

subsection \<open>Data\<close>

record Image =
  img_buffer :: string
  img_resolution :: Resolution
  img_mimeType :: string

text \<open>
  A chunk of a response stream: the parts of its first candidate (empty when there is
  none) and what the getter \<open>functionCalls\<close> of the LLM library returns (empty for
  undefined). A function call of the LLM may lack its id.
\<close>

record LlmFunctionCall =
  llm_id :: "string option"
  llm_name :: string
  llm_args :: Json

record Chunk =
  chunk_parts :: "Part list"
  chunk_functionCalls :: "LlmFunctionCall list"

text \<open>A stream yields its chunks and then ends, or fails with an error.\<close>

record LlmStream =
  stream_chunks :: "Chunk list"
  stream_failure :: "string option"

datatype ResponseText = TextDelta string | ThoughtDelta string

datatype MessagePart = PartOf Part | ImageFileName string

record AgentPersistMessage =
  apm_role :: Role
  apm_parts :: "MessagePart list"
  apm_toolReview :: "ToolReview option"
  apm_forDisplay :: "bool option"

record ToolDecision =
  td_functionCall :: FunctionCall
  td_originalFunctionCall :: FunctionCall
  td_response :: ToolReviewChoice

datatype AgentInput = TextInput string | ToolDecisions "ToolDecision list"

text \<open>
  What a run does to the outside, in the order of the calls: the callbacks
  \<open>setSessionStatus\<close>, \<open>streamMessage\<close>, \<open>saveImage\<close> and \<open>persistMessage\<close>, the
  screenshot action, the planning request with its contents, the execution of a tool
  call, and the grounding of a computer tool call.
\<close>

datatype Event =
    SetSessionStatus SessionStatus string
  | StreamMessage Role ResponseText
  | SaveImage string string
  | PersistMessage AgentPersistMessage
  | TakeScreenshot
  | GenerateContentStream string "Content list"
  | ExecuteToolCall FunctionCall
  | Ground ComputerTool FunctionCall

datatype ResponsePart = StringPart string | ObjectPart Part

datatype ToolCallResult = ToolCallError string | ToolCallParts "ResponsePart list"

text \<open>
  A grounded tool call: what \<open>value()\<close> returns (a name and arguments) and what
  \<open>getDescription(saveImage)\<close> returns, with the events of the latter.
\<close>

record GroundedToolCall =
  grounded_name :: string
  grounded_args :: Json
  grounded_description :: "MessagePart list"
  grounded_descriptionEvents :: "Event list"

datatype GroundResult = GroundThrows string | GroundFails string | Grounded GroundedToolCall

record GroundOutcome =
  ground_events :: "Event list"
  ground_result :: GroundResult

text \<open>
  The collaborators of the agent, each a function of the events so far, so that a
  collaborator may answer differently every time:
  \<^item> \<open>env_model\<close>: \<open>config.getModel()\<close>;
  \<^item> \<open>env_hasComputerTool\<close>: whether the tool registry has the tool \<open>.computer\<close>;
  \<^item> \<open>env_screenshot\<close>: the screenshot action decoded by \<open>takeScreenshot\<close> up to the
    check of its size, \<open>Inl\<close> when the action or the decoding throws;
  \<^item> \<open>env_now\<close>: \<open>new Date().toLocaleString()\<close>;
  \<^item> \<open>env_saveImage\<close>: the file name the callback \<open>saveImage\<close> returns;
  \<^item> \<open>env_crop\<close>: the image library cutting and resizing one tile;
  \<^item> \<open>env_generate\<close>: the planning LLM, given the contents of the request;
  \<^item> \<open>env_newId\<close>: the id made from the name, the time and a random number for a
    function call that has none, given its position in its chunk;
  \<^item> \<open>env_execute\<close>: \<open>executeToolCall\<close> of the core library;
  \<^item> \<open>env_schemaValidate\<close>: the schema validator of the core library;
  \<^item> \<open>env_ground\<close>: \<open>ground\<close> of a computer tool followed by \<open>getDescription\<close> of its
    result, with the events of the grounding (stream, persisted messages of the
    grounding model); a string returned by \<open>ground\<close> is \<open>GroundFails\<close>.
  The callbacks are taken to return normally.
\<close>

record Env =
  env_model :: string
  env_hasComputerTool :: bool
  env_screenshot :: "Event list \<Rightarrow> string + Image"
  env_now :: "Event list \<Rightarrow> string"
  env_saveImage :: "Event list \<Rightarrow> string \<Rightarrow> string \<Rightarrow> string"
  env_crop :: "string \<Rightarrow> Coordinate \<Rightarrow> int \<Rightarrow> string"
  env_generate :: "Event list \<Rightarrow> Content list \<Rightarrow> LlmStream"
  env_newId :: "Event list \<Rightarrow> nat \<Rightarrow> string \<Rightarrow> string"
  env_execute :: "Event list \<Rightarrow> FunctionCall \<Rightarrow> ToolCallResult"
  env_schemaValidate :: "Json \<Rightarrow> string option"
  env_ground :: "Event list \<Rightarrow> ComputerTool \<Rightarrow> FunctionCall \<Rightarrow> Image \<Rightarrow> nat \<Rightarrow> GroundOutcome"

subsection \<open>Reading a response stream\<close>

definition getResponseText :: "Chunk \<Rightarrow> ResponseText option" where
  "getResponseText response =
     (if chunk_parts response = [] then None
      else (let mergedText =
                  concat (map (\<lambda>part. case part_text part of None \<Rightarrow> [] | Some t \<Rightarrow> t)
                            (chunk_parts response))
            in if filter part_thought (chunk_parts response) \<noteq> []
               then Some (ThoughtDelta mergedText) else Some (TextDelta mergedText)))"

record StreamResult =
  sr_thought :: string
  sr_output :: string
  sr_functionCalls :: "FunctionCall list"

text \<open>
  The function calls of one chunk with their ids: \<open>fc.id ?? ...\<close> keeps an id that is
  there, the empty string too.
\<close>

definition strictFunctionCalls :: "Env \<Rightarrow> Event list \<Rightarrow> LlmFunctionCall list \<Rightarrow> FunctionCall list" where
  "strictFunctionCalls env trace fcs =
     map (\<lambda>(i, fc).
            \<lparr>fc_id = (case llm_id fc of Some given \<Rightarrow> given
                       | None \<Rightarrow> env_newId env trace i (llm_name fc)),
             fc_name = llm_name fc, fc_args = llm_args fc\<rparr>)
       (enumerate 0 fcs)"

text \<open>The body of the loop \<open>for await (const resp of responseStream)\<close>.\<close>

fun readChunks ::
  "Env \<Rightarrow> Role \<Rightarrow> Chunk list \<Rightarrow> Event list \<times> StreamResult \<Rightarrow> Event list \<times> StreamResult" where
  "readChunks env role [] acc = acc"
| "readChunks env role (resp # rest) (trace, r) =
     (let textPart = getResponseText resp;
          trace' = (case textPart of None \<Rightarrow> trace | Some t \<Rightarrow> trace @ [StreamMessage role t]);
          thought' = sr_thought r @ (case textPart of Some (ThoughtDelta t) \<Rightarrow> t | _ \<Rightarrow> []);
          output' = sr_output r @ (case textPart of Some (TextDelta t) \<Rightarrow> t | _ \<Rightarrow> []);
          calls' = sr_functionCalls r @ strictFunctionCalls env trace' (chunk_functionCalls resp)
      in readChunks env role rest
           (trace', \<lparr>sr_thought = thought', sr_output = output', sr_functionCalls = calls'\<rparr>))"

text \<open>
  \<open>processStreamResponse\<close>: the result is the events and either the error the stream
  failed with or what was collected. The abort signal belongs to a controller that
  nothing aborts, so the check of it never throws.
\<close>

definition processStreamResponse ::
  "Env \<Rightarrow> Role \<Rightarrow> LlmStream \<Rightarrow> bool option \<Rightarrow> Event list \<Rightarrow> Event list \<times> (string + StreamResult)" where
  "processStreamResponse env role responseStream forDisplay trace =
     (case readChunks env role (stream_chunks responseStream)
             (trace, \<lparr>sr_thought = [], sr_output = [], sr_functionCalls = []\<rparr>) of
        (trace', r) \<Rightarrow>
          (case stream_failure responseStream of
             Some e \<Rightarrow> (trace', Inl e)
           | None \<Rightarrow>
               if sr_output r \<noteq> [] \<or> sr_functionCalls r \<noteq> []
               then (trace' @
                      [PersistMessage
                         \<lparr>apm_role = role,
                          apm_parts =
                            (if sr_thought r \<noteq> [] then [PartOf (thoughtPart (sr_thought r))] else []) @
                            (if sr_output r \<noteq> [] then [PartOf (textPart (sr_output r))] else []) @
                            map (\<lambda>fc. PartOf (functionCallPart fc)) (sr_functionCalls r),
                          apm_toolReview = None, apm_forDisplay = forDisplay\<rparr>],
                     Inr r)
               else (trace', Inr r)))"

subsection \<open>The context manager\<close>

fun mergeInto :: "Content \<Rightarrow> Content list \<Rightarrow> Content list" where
  "mergeInto current [] = [current]"
| "mergeInto current (next # rest) =
     (if content_role next = content_role current
      then mergeInto (current\<lparr>content_parts := content_parts current @ content_parts next\<rparr>) rest
      else current # mergeInto next rest)"

definition mergeAdjacentMessages :: "Content list \<Rightarrow> Content list" where
  "mergeAdjacentMessages messages =
     (case messages of [] \<Rightarrow> [] | first # rest \<Rightarrow> mergeInto first rest)"

definition appendContent :: "Content list \<Rightarrow> Content \<Rightarrow> Content list" where
  "appendContent history content =
     (if history \<noteq> [] \<and> content_role (last history) = content_role content
      then butlast history @
             [(last history)\<lparr>content_parts := content_parts (last history) @ content_parts content\<rparr>]
      else history @ [content])"

subsection \<open>Tool responses\<close>

definition forgeToolResponse ::
  "ToolOutcome \<Rightarrow> FunctionCall \<Rightarrow> FunctionCall option \<Rightarrow> string + Part" where
  "forgeToolResponse response functionCall originalFunctionCall =
     (if fc_id functionCall = [] then Inl ''Function call id is required in tool response''
      else Inr (functionResponsePart
                  \<lparr>fr_id = (case originalFunctionCall of Some orig \<Rightarrow> fc_id orig
                             | None \<Rightarrow> fc_id functionCall),
                   fr_name = (case originalFunctionCall of Some orig \<Rightarrow> fc_name orig
                               | None \<Rightarrow> fc_name functionCall),
                   fr_response = response\<rparr>))"

definition parseResultPart :: "ResponsePart \<Rightarrow> string + string" where
  "parseResultPart part =
     (case part of
        StringPart s \<Rightarrow> Inr s
      | ObjectPart p \<Rightarrow>
          (case part_text p of
             Some (c # cs) \<Rightarrow> Inr (c # cs)
           | _ \<Rightarrow>
               (case part_functionResponse p of
                  Some fr \<Rightarrow>
                    (case fr_response fr of
                       Output (c # cs) \<Rightarrow> Inr (c # cs)
                     | _ \<Rightarrow> Inl ''Unsupported tool response part: [object Object]'')
                | None \<Rightarrow> Inl ''Unsupported tool response part: [object Object]'')))"

fun joinLines :: "string list \<Rightarrow> string" where
  "joinLines [] = []"
| "joinLines [s] = s"
| "joinLines (s # t # rest) = s @ [newline] @ joinLines (t # rest)"

definition parseResult :: "ResponsePart list \<Rightarrow> string + string" where
  "parseResult parts =
     (case mapResult parseResultPart parts of Inl e \<Rightarrow> Inl e | Inr texts \<Rightarrow> Inr (joinLines texts))"

definition executeToolGetPart ::
  "Env \<Rightarrow> FunctionCall \<Rightarrow> FunctionCall option \<Rightarrow> Event list \<Rightarrow> Event list \<times> (string + Part)" where
  "executeToolGetPart env functionCall originalFunctionCall trace =
     (let trace' = trace @ [ExecuteToolCall functionCall]
      in case env_execute env trace' functionCall of
           ToolCallError message \<Rightarrow>
             (trace', forgeToolResponse (Error message) functionCall originalFunctionCall)
         | ToolCallParts parts \<Rightarrow>
             (case parseResult parts of
                Inl e \<Rightarrow> (trace', Inl e)
              | Inr text \<Rightarrow>
                  (trace', forgeToolResponse (Output text) functionCall originalFunctionCall)))"

subsection \<open>The state of a run\<close>

text \<open>
  \<open>st_shared\<close> records an aliasing of the source: \<open>appendContent\<close> pushes the content
  object it is given, and \<open>planNextStep\<close> gives it a content whose parts are the array
  \<open>currentParts\<close> itself. While that message is the last of the history, a push onto
  \<open>currentParts\<close> changes the history as well. Merging into the last message builds a
  new array, and \<open>currentParts\<close> is assigned a new array before the next push of another
  turn, so the flag is only ever set between the two planning requests of one turn.
\<close>

record AgentState =
  st_trace :: "Event list"
  st_history :: "Content list"
  st_shared :: bool
  st_currentParts :: "Part list"
  st_turnCount :: nat

record AgentResult =
  result_trace :: "Event list"
  result_thrown :: "string option"

datatype TurnOutcome = Continue AgentState | Finished AgentResult

text \<open>The \<open>catch\<close> of the loop: the error becomes the session status and the run returns.\<close>

definition caught :: "Event list \<Rightarrow> string \<Rightarrow> TurnOutcome" where
  "caught trace message =
     Finished \<lparr>result_trace = trace @ [SetSessionStatus Failed message], result_thrown = None\<rparr>"

subsection \<open>Seeding the first turn\<close>

text \<open>
  The loop over the decisions, before the \<open>try\<close>: an error leaves \<open>runAgent\<close> as an
  exception, with the events made up to there.
\<close>

fun seedDecisions ::
  "Env \<Rightarrow> ToolDecision list \<Rightarrow> Event list \<times> Part list \<Rightarrow> Event list \<times> (string + Part list)" where
  "seedDecisions env [] (trace, currentParts) = (trace, Inr currentParts)"
| "seedDecisions env (d # rest) (trace, currentParts) =
     (if td_response d = RejectOnce
      then (case forgeToolResponse (Error ''Rejected by user'') (td_functionCall d)
                   (Some (td_originalFunctionCall d)) of
              Inl e \<Rightarrow> (trace, Inl e)
            | Inr toolRejectPart \<Rightarrow>
                seedDecisions env rest
                  (trace @ [PersistMessage \<lparr>apm_role = Tool, apm_parts = [PartOf toolRejectPart],
                                            apm_toolReview = None, apm_forDisplay = Some False\<rparr>],
                   currentParts @ [toolRejectPart]))
      else (case executeToolGetPart env (td_functionCall d) (Some (td_originalFunctionCall d)) trace of
              (trace', Inl e) \<Rightarrow> (trace', Inl e)
            | (trace', Inr toolResultPart) \<Rightarrow>
                seedDecisions env rest
                  (trace' @ [PersistMessage \<lparr>apm_role = Tool, apm_parts = [PartOf toolResultPart],
                                             apm_toolReview = None, apm_forDisplay = None\<rparr>],
                   currentParts @ [toolResultPart])))"

subsection \<open>Observing the screen\<close>

text \<open>
  \<open>takeScreenshot\<close> from the decoded action: it throws on a missing or zero width or
  height and else builds the screen. \<open>None\<close> is a constructor that does not return.
\<close>

definition takeScreenshot :: "string + Image \<Rightarrow> (string + Image \<times> Screen) option" where
  "takeScreenshot decoded =
     (case decoded of
        Inl e \<Rightarrow> Some (Inl e)
      | Inr img \<Rightarrow>
          if width (img_resolution img) = 0 \<or> height (img_resolution img) = 0
          then Some (Inl (''Invalid screenshot: width: '' @ decimalInt (width (img_resolution img)) @
                          '', height: '' @ decimalInt (height (img_resolution img))))
          else (case setCropConfiguration (img_resolution img) of
                  None \<Rightarrow> None
                | Some scr \<Rightarrow> Some (Inr (img, scr))))"

record CroppedScreenshot =
  crop_image :: Image
  crop_nameSuffix :: string

definition cropScreenshot :: "Env \<Rightarrow> Screen \<Rightarrow> Image \<Rightarrow> CroppedScreenshot list" where
  "cropScreenshot env scr screenshot =
     map (\<lambda>(index, startPoint).
            \<lparr>crop_image =
               \<lparr>img_buffer = env_crop env (img_buffer screenshot) startPoint (cropSquareSideLength scr),
                img_resolution = \<lparr>width = 768, height = 768\<rparr>, img_mimeType = ''image/png''\<rparr>,
             crop_nameSuffix =
               ''screenshot_'' @ (case cropDirection scr of Vertical \<Rightarrow> ''v'' | Horizontal \<Rightarrow> ''h'') @
               ''c'' @ decimal index\<rparr>)
       (enumerate 0 (squareStartingPoints scr))"

definition imageToPart :: "Image \<Rightarrow> Part" where
  "imageToPart img = inlineDataPart (img_buffer img) (img_mimeType img)"

text \<open>Saving the cropped screenshots in order; the result pairs file names with parts.\<close>

fun saveCropped ::
  "Env \<Rightarrow> CroppedScreenshot list \<Rightarrow> Event list \<Rightarrow> Event list \<times> (string \<times> Part) list" where
  "saveCropped env [] trace = (trace, [])"
| "saveCropped env (c # rest) trace =
     (let trace' = trace @ [SaveImage (img_buffer (crop_image c)) (crop_nameSuffix c)];
          imageFileName = env_saveImage env trace' (img_buffer (crop_image c)) (crop_nameSuffix c)
      in case saveCropped env rest trace' of
           (trace'', saved) \<Rightarrow> (trace'', (imageFileName, imageToPart (crop_image c)) # saved))"

subsection \<open>Planning\<close>

text \<open>
  The first lines of \<open>planNextStep\<close>: the parts of the user turn, with the extra prompt
  when there is one, and the contents of the request, which \<open>appendContent\<close> builds
  from the history. When the last message of the history shares its parts with
  \<open>currentParts\<close>, it has the extra prompt already before the parts are appended to it.
\<close>

definition userPartsOf :: "string option \<Rightarrow> AgentState \<Rightarrow> Part list" where
  "userPartsOf extraPrompt st =
     (case extraPrompt of
        Some (c # cs) \<Rightarrow> st_currentParts st @ [textPart (c # cs)]
      | _ \<Rightarrow> st_currentParts st)"

definition historyBeforeRequest :: "string option \<Rightarrow> AgentState \<Rightarrow> Content list" where
  "historyBeforeRequest extraPrompt st =
     (if st_shared st \<and> st_history st \<noteq> []
      then butlast (st_history st) @
             [(last (st_history st))\<lparr>content_parts := userPartsOf extraPrompt st\<rparr>]
      else st_history st)"

definition requestContentsOf :: "string option \<Rightarrow> AgentState \<Rightarrow> Content list" where
  "requestContentsOf extraPrompt st =
     appendContent (historyBeforeRequest extraPrompt st)
       \<lparr>content_role = UserRole, content_parts = userPartsOf extraPrompt st\<rparr>"

text \<open>
  The state after a request that added no model content: the history is the contents
  of the request, and its last message shares its parts with \<open>currentParts\<close> exactly
  when it was pushed, not merged.
\<close>

definition afterRequest :: "string option \<Rightarrow> Event list \<Rightarrow> AgentState \<Rightarrow> AgentState" where
  "afterRequest extraPrompt trace st =
     st\<lparr>st_trace := trace,
        st_history := requestContentsOf extraPrompt st,
        st_shared := \<not> (historyBeforeRequest extraPrompt st \<noteq> [] \<and>
                          content_role (last (historyBeforeRequest extraPrompt st)) = UserRole),
        st_currentParts := userPartsOf extraPrompt st\<rparr>"

text \<open>The content \<open>planNextStep\<close> appends for the model: the text if any, then the calls.\<close>

definition modelContent :: "StreamResult \<Rightarrow> Content" where
  "modelContent result =
     \<lparr>content_role = ModelRole,
      content_parts =
        (if sr_output result \<noteq> [] then [textPart (sr_output result)] else []) @
        map functionCallPart (sr_functionCalls result)\<rparr>"

text \<open>
  \<open>planNextStep\<close>: the request is recorded, the planning model answers with a stream,
  and the stream is read. The result is the new state and either the error thrown or
  the function calls when the model answered (\<open>Some\<close>, the \<open>true\<close> of the source) and
  \<open>None\<close> when the answer was empty.
\<close>

definition requestTrace :: "Env \<Rightarrow> string option \<Rightarrow> AgentState \<Rightarrow> Event list" where
  "requestTrace env extraPrompt st =
     st_trace st @ [GenerateContentStream (env_model env) (requestContentsOf extraPrompt st)]"

definition answerOf :: "Env \<Rightarrow> string option \<Rightarrow> AgentState \<Rightarrow> LlmStream" where
  "answerOf env extraPrompt st =
     env_generate env (requestTrace env extraPrompt st) (requestContentsOf extraPrompt st)"

definition planNextStep ::
  "Env \<Rightarrow> string option \<Rightarrow> AgentState \<Rightarrow> AgentState \<times> (string + FunctionCall list option)" where
  "planNextStep env extraPrompt st =
     (case processStreamResponse env Model (answerOf env extraPrompt st) None
             (requestTrace env extraPrompt st) of
        (trace2, Inl e) \<Rightarrow> (afterRequest extraPrompt trace2 st, Inl e)
      | (trace2, Inr result) \<Rightarrow>
          if sr_output result \<noteq> [] \<or> sr_functionCalls result \<noteq> []
          then ((afterRequest extraPrompt trace2 st)
                  \<lparr>st_history :=
                     appendContent (requestContentsOf extraPrompt st) (modelContent result),
                   st_shared := False\<rparr>,
                Inr (Some (sr_functionCalls result)))
          else (afterRequest extraPrompt trace2 st, Inr None))"

subsection \<open>Grounding and dispatching the function calls\<close>

record CallState =
  cs_trace :: "Event list"
  cs_toolResponseParts :: "Part list"
  cs_pending :: bool
  cs_toolReviewMessages :: "AgentPersistMessage list"
  cs_delayedFunctionCalls :: "(FunctionCall \<times> FunctionCall) list"

text \<open>
  The body of the loop \<open>for (const fc of functionCalls)\<close>. The calls come from
  \<open>processStreamResponse\<close> with an id, so \<open>originalFunctionCall\<close> is the call itself.
  \<open>Inl\<close> is an exception, with the events made up to it.
\<close>

definition processFunctionCall ::
  "Env \<Rightarrow> string list \<Rightarrow> Image \<Rightarrow> nat \<Rightarrow> FunctionCall \<Rightarrow> CallState
     \<Rightarrow> (Event list \<times> string) + CallState" where
  "processFunctionCall env allowedTools screenshot tiles fc cs =
     (let originalFunctionCall = fc
      in if startsWith (fc_name fc) ''computer_''
         then (case getValidComputerTool (env_schemaValidate env) (fc_name originalFunctionCall)
                      (fc_args originalFunctionCall) of
                 ValidateNotAFunction \<Rightarrow> Inl (cs_trace cs, ''TypeError: tool.validate is not a function'')
               | ErrorString groundableTool \<Rightarrow>
                   (case forgeToolResponse (Error groundableTool) fc (Some originalFunctionCall) of
                      Inl e \<Rightarrow> Inl (cs_trace cs, e)
                    | Inr part \<Rightarrow>
                        Inr (cs\<lparr>cs_toolResponseParts := cs_toolResponseParts cs @ [part]\<rparr>))
               | ValidTool groundableTool \<Rightarrow>
                   (let trace1 = cs_trace cs @ [Ground groundableTool originalFunctionCall];
                        outcome = env_ground env trace1 groundableTool originalFunctionCall screenshot tiles;
                        trace2 = trace1 @ ground_events outcome
                    in case ground_result outcome of
                         GroundThrows e \<Rightarrow> Inl (trace2, e)
                       | GroundFails groundedToolCall \<Rightarrow>
                           (case forgeToolResponse (Error (''Error during grounding: '' @ groundedToolCall))
                                   fc (Some originalFunctionCall) of
                              Inl e \<Rightarrow> Inl (trace2, e)
                            | Inr part \<Rightarrow>
                                Inr (cs\<lparr>cs_trace := trace2,
                                        cs_toolResponseParts := cs_toolResponseParts cs @ [part]\<rparr>))
                       | Grounded groundedToolCall \<Rightarrow>
                           (let functionCall =
                                  \<lparr>fc_id = fc_id originalFunctionCall,
                                   fc_name = grounded_name groundedToolCall,
                                   fc_args = grounded_args groundedToolCall\<rparr>;
                                trace3 = trace2 @ grounded_descriptionEvents groundedToolCall;
                                request =
                                  \<lparr>apm_role = Workflow,
                                   apm_parts = grounded_description groundedToolCall,
                                   apm_toolReview =
                                     Some (ToolReviewRequest (fc_id originalFunctionCall) functionCall
                                             originalFunctionCall),
                                   apm_forDisplay = Some True\<rparr>
                            in if fc_name originalFunctionCall \<in> set allowedTools
                               then Inr (cs\<lparr>cs_trace := trace3,
                                            cs_toolReviewMessages :=
                                              cs_toolReviewMessages cs @
                                              [request,
                                               \<lparr>apm_role = User, apm_parts = [],
                                                apm_toolReview =
                                                  Some (ToolReviewResponse (fc_id originalFunctionCall)
                                                          AcceptSession),
                                                apm_forDisplay = Some True\<rparr>],
                                            cs_delayedFunctionCalls :=
                                              cs_delayedFunctionCalls cs @
                                              [(functionCall, originalFunctionCall)]\<rparr>)
                               else Inr (cs\<lparr>cs_trace := trace3,
                                            cs_toolReviewMessages := cs_toolReviewMessages cs @ [request],
                                            cs_pending := True\<rparr>))))
         else (case executeToolGetPart env fc (Some originalFunctionCall) (cs_trace cs) of
                 (trace', Inl e) \<Rightarrow> Inl (trace', e)
               | (trace', Inr part) \<Rightarrow>
                   Inr (cs\<lparr>cs_trace := trace',
                           cs_toolResponseParts := cs_toolResponseParts cs @ [part]\<rparr>)))"

fun processFunctionCalls ::
  "Env \<Rightarrow> string list \<Rightarrow> Image \<Rightarrow> nat \<Rightarrow> FunctionCall list \<Rightarrow> CallState
     \<Rightarrow> (Event list \<times> string) + CallState" where
  "processFunctionCalls env allowedTools screenshot tiles [] cs = Inr cs"
| "processFunctionCalls env allowedTools screenshot tiles (fc # rest) cs =
     (case processFunctionCall env allowedTools screenshot tiles fc cs of
        Inl thrown \<Rightarrow> Inl thrown
      | Inr cs' \<Rightarrow> processFunctionCalls env allowedTools screenshot tiles rest cs')"

text \<open>
  The delayed, auto-accepted calls. \<open>delayedFunctionCalls.map(async ...)\<close> starts the
  execution of every call, in order, before \<open>for await\<close> awaits the first, so every
  call is executed even when an earlier one throws; the results are then taken in
  order, and the first error in the order of the calls is the one thrown.
\<close>

fun executeDelayed ::
  "Env \<Rightarrow> (FunctionCall \<times> FunctionCall) list \<Rightarrow> Event list \<Rightarrow> Event list \<times> (string + Part list)" where
  "executeDelayed env [] trace = (trace, Inr [])"
| "executeDelayed env ((functionCall, originalFunctionCall) # rest) trace =
     (case executeToolGetPart env functionCall (Some originalFunctionCall) trace of
        (trace', started) \<Rightarrow>
          (case executeDelayed env rest trace' of
             (trace'', others) \<Rightarrow>
               (trace'',
                case started of
                  Inl e \<Rightarrow> Inl e
                | Inr part \<Rightarrow> (case others of Inl e \<Rightarrow> Inl e | Inr parts \<Rightarrow> Inr (part # parts)))))"

text \<open>The end of a turn that had function calls.\<close>

definition finalizeTurn :: "Env \<Rightarrow> AgentState \<Rightarrow> CallState \<Rightarrow> TurnOutcome" where
  "finalizeTurn env st cs =
     (let trace1 = (if cs_toolResponseParts cs \<noteq> []
                    then cs_trace cs @
                           [PersistMessage \<lparr>apm_role = Tool,
                                            apm_parts = map PartOf (cs_toolResponseParts cs),
                                            apm_toolReview = None, apm_forDisplay = None\<rparr>]
                    else cs_trace cs);
          trace2 = trace1 @ map PersistMessage (cs_toolReviewMessages cs)
      in if cs_pending cs
         then Finished \<lparr>result_trace = trace2 @ [SetSessionStatus Pending ''Tool call pending.''],
                        result_thrown = None\<rparr>
         else (case executeDelayed env (cs_delayedFunctionCalls cs) trace2 of
                 (trace3, Inl e) \<Rightarrow> caught trace3 e
               | (trace3, Inr delayedToolResponseParts) \<Rightarrow>
                   Continue (st\<lparr>st_trace :=
                                   trace3 @
                                   [PersistMessage \<lparr>apm_role = Tool,
                                                    apm_parts = map PartOf delayedToolResponseParts,
                                                    apm_toolReview = None, apm_forDisplay = None\<rparr>],
                                 st_shared := False,
                                 st_currentParts :=
                                   cs_toolResponseParts cs @ delayedToolResponseParts\<rparr>)))"

text \<open>
  What follows the planning of a turn, from the place where the source tests
  \<open>functionCalls.length > 0\<close>.
\<close>

definition dispatch ::
  "Env \<Rightarrow> string list \<Rightarrow> Image \<Rightarrow> nat \<Rightarrow> FunctionCall list \<Rightarrow> AgentState \<Rightarrow> TurnOutcome" where
  "dispatch env allowedTools screenshot tiles functionCalls st =
     (if functionCalls \<noteq> []
      then (case processFunctionCalls env allowedTools screenshot tiles functionCalls
                   \<lparr>cs_trace = st_trace st, cs_toolResponseParts = [], cs_pending = False,
                    cs_toolReviewMessages = [], cs_delayedFunctionCalls = []\<rparr> of
              Inl (trace, e) \<Rightarrow> caught trace e
            | Inr cs \<Rightarrow> finalizeTurn env st cs)
      else Finished \<lparr>result_trace =
                        st_trace st @ [SetSessionStatus Stagnant ''No more tool calls from model.''],
                      result_thrown = None\<rparr>)"

text \<open>
  The retry of the planning with the extra prompt \<open>continue\<close>, after an empty answer.
  The status \<open>error\<close> of an answer that is empty again is set, and the turn goes on to
  the test of \<open>functionCalls\<close>, which are still none.
\<close>

definition retryWithContinue ::
  "Env \<Rightarrow> string list \<Rightarrow> Image \<Rightarrow> nat \<Rightarrow> AgentState \<Rightarrow> TurnOutcome" where
  "retryWithContinue env allowedTools screenshot tiles st1 =
     (case planNextStep env (Some ''continue'') st1 of
        (st2, Inl e) \<Rightarrow> caught (st_trace st2) e
      | (st2, Inr (Some functionCalls)) \<Rightarrow>
          dispatch env allowedTools screenshot tiles functionCalls st2
      | (st2, Inr None) \<Rightarrow>
          dispatch env allowedTools screenshot tiles []
            (st2\<lparr>st_trace :=
                   st_trace st2 @
                   [SetSessionStatus Failed ''Model returned empty response even after retry.'']\<rparr>))"

text \<open>The planning of a turn and what follows it.\<close>

definition planAndDispatch ::
  "Env \<Rightarrow> string list \<Rightarrow> Image \<Rightarrow> nat \<Rightarrow> AgentState \<Rightarrow> TurnOutcome" where
  "planAndDispatch env allowedTools screenshot tiles st =
     (case planNextStep env None st of
        (st1, Inl e) \<Rightarrow> caught (st_trace st1) e
      | (st1, Inr (Some functionCalls)) \<Rightarrow> dispatch env allowedTools screenshot tiles functionCalls st1
      | (st1, Inr None) \<Rightarrow> retryWithContinue env allowedTools screenshot tiles st1)"

subsection \<open>A turn and the loop\<close>

text \<open>One pass of \<open>while (true)\<close>; \<open>None\<close> when the screen constructor does not return.\<close>

definition turn :: "Env \<Rightarrow> string list \<Rightarrow> AgentState \<Rightarrow> TurnOutcome option" where
  "turn env allowedTools st =
     (let turnCount = st_turnCount st + 1;
          trace1 = st_trace st @ [SetSessionStatus Running (''Turn '' @ decimal turnCount), TakeScreenshot]
      in case takeScreenshot (env_screenshot env trace1) of
           None \<Rightarrow> None
         | Some (Inl e) \<Rightarrow> Some (caught trace1 e)
         | Some (Inr (screenshot, scr)) \<Rightarrow>
             (let screenshotDescription = ''Screenshot at '' @ env_now env trace1 @ '':'';
                  trace2 = trace1 @ [SaveImage (img_buffer screenshot) ''screenshot''];
                  fileName = env_saveImage env trace2 (img_buffer screenshot) ''screenshot'';
                  trace3 = trace2 @
                    [PersistMessage
                       \<lparr>apm_role = Workflow,
                        apm_parts = [PartOf (textPart screenshotDescription), ImageFileName fileName],
                        apm_toolReview = None, apm_forDisplay = Some True\<rparr>]
              in case saveCropped env (cropScreenshot env scr screenshot) trace3 of
                   (trace4, croppedScreenshotsData) \<Rightarrow>
                     (let trace5 = trace4 @
                            [PersistMessage
                               \<lparr>apm_role = Workflow,
                                apm_parts = PartOf (textPart screenshotDescription) #
                                            map (\<lambda>(imageFileName, imagePart). ImageFileName imageFileName)
                                              croppedScreenshotsData,
                                apm_toolReview = None, apm_forDisplay = Some False\<rparr>];
                          currentParts = st_currentParts st @
                            textPart screenshotDescription #
                            map (\<lambda>(imageFileName, imagePart). imagePart) croppedScreenshotsData
                      in Some (planAndDispatch env allowedTools screenshot
                                 (length croppedScreenshotsData)
                                 (st\<lparr>st_trace := trace5, st_currentParts := currentParts,
                                     st_turnCount := turnCount\<rparr>)))))"

partial_function (option) runTurns :: "Env \<Rightarrow> string list \<Rightarrow> AgentState \<Rightarrow> AgentResult option" where
  "runTurns env allowedTools st =
     (case turn env allowedTools st of
        None \<Rightarrow> None
      | Some (Finished result) \<Rightarrow> Some result
      | Some (Continue st') \<Rightarrow> runTurns env allowedTools st')"

declare runTurns.simps [code]

text \<open>
  \<open>runAgent\<close>. The result is \<open>None\<close> when the run does not return; else it has the
  events of the run and the exception \<open>runAgent\<close> threw, if it threw one.
\<close>

definition runAgent :: "Env \<Rightarrow> Content list \<Rightarrow> AgentInput \<Rightarrow> string list \<Rightarrow> AgentResult option" where
  "runAgent env historyMessages input allowedTools =
     (if \<not> env_hasComputerTool env
      then Some \<lparr>result_trace = [], result_thrown = Some ''Core tool .computer not found in registry''\<rparr>
      else (case input of
              TextInput text \<Rightarrow>
                runTurns env allowedTools
                  \<lparr>st_trace = [PersistMessage \<lparr>apm_role = User, apm_parts = [PartOf (textPart text)],
                                               apm_toolReview = None, apm_forDisplay = None\<rparr>],
                   st_history = mergeAdjacentMessages historyMessages, st_shared = False,
                   st_currentParts = [textPart text], st_turnCount = 0\<rparr>
            | ToolDecisions decisions \<Rightarrow>
                (case seedDecisions env decisions ([], []) of
                   (trace, Inl e) \<Rightarrow> Some \<lparr>result_trace = trace, result_thrown = Some e\<rparr>
                 | (trace, Inr currentParts) \<Rightarrow>
                     if filter (\<lambda>d. td_response d \<noteq> RejectOnce) decisions = []
                     then Some \<lparr>result_trace =
                                   trace @ [SetSessionStatus Stagnant ''User rejected all tool calls.''],
                                 result_thrown = None\<rparr>
                     else runTurns env allowedTools
                            \<lparr>st_trace = trace, st_history = mergeAdjacentMessages historyMessages,
                             st_shared = False, st_currentParts = currentParts, st_turnCount = 0\<rparr>)))"

text \<open>The events made when a turn ends, whether the loop goes on or the run returns.\<close>

definition outcomeTrace :: "TurnOutcome \<Rightarrow> Event list" where
  "outcomeTrace outcome =
     (case outcome of Continue st \<Rightarrow> st_trace st | Finished result \<Rightarrow> result_trace result)"

text \<open>The status transitions among the events of a run, in order.\<close>

fun statusTransitions :: "Event list \<Rightarrow> (SessionStatus \<times> string) list" where
  "statusTransitions [] = []"
| "statusTransitions (SetSessionStatus status message # rest) =
     (status, message) # statusTransitions rest"
| "statusTransitions (e # rest) = statusTransitions rest"

text \<open>The contents of the planning requests among the events of a run, in order.\<close>

fun planningRequests :: "Event list \<Rightarrow> Content list list" where
  "planningRequests [] = []"
| "planningRequests (GenerateContentStream model contents # rest) =
     contents # planningRequests rest"
| "planningRequests (e # rest) = planningRequests rest"

text \<open>
  The part and the persisted message that \<open>runAgent\<close> makes for a rejected decision.
\<close>

definition rejectPart :: "ToolDecision \<Rightarrow> Part" where
  "rejectPart d =
     functionResponsePart
       \<lparr>fr_id = fc_id (td_originalFunctionCall d), fr_name = fc_name (td_originalFunctionCall d),
        fr_response = Error ''Rejected by user''\<rparr>"

definition rejectMessage :: "ToolDecision \<Rightarrow> AgentPersistMessage" where
  "rejectMessage d =
     \<lparr>apm_role = Tool, apm_parts = [PartOf (rejectPart d)], apm_toolReview = None,
      apm_forDisplay = Some False\<rparr>"

section \<open>Example data\<close>

text \<open>Two records of a message log with the lines \<open>JSON.stringify\<close> writes for them.\<close>

definition userMessage :: PersistentMessage where
  "userMessage =
     \<lparr>pm_id = ''1'', pm_role = User, pm_content = [TextBlock ''hi''], pm_toolReview = None,
      pm_forDisplay = None, pm_timestamp = ''2025-01-01T00:00:00.000Z''\<rparr>"

definition userLine :: string where
  "userLine =
     ''{\"id\":\"1\",\"role\":\"user\",\"content\":[{\"text\":\"hi\"}],\"timestamp\":\"2025-01-01T00:00:00.000Z\"}''"

definition hiddenMessage :: PersistentMessage where
  "hiddenMessage =
     \<lparr>pm_id = ''2'', pm_role = Workflow, pm_content = [TextBlock ''tiles''], pm_toolReview = None,
      pm_forDisplay = Some False, pm_timestamp = ''2025-01-01T00:00:01.000Z''\<rparr>"

definition hiddenLine :: string where
  "hiddenLine =
     ''{\"id\":\"2\",\"role\":\"workflow\",\"content\":[{\"text\":\"tiles\"}],\"forDisplay\":false,\"timestamp\":\"2025-01-01T00:00:01.000Z\"}''"

definition messageTable :: "(string \<times> PersistentMessage) list" where
  "messageTable = [(userLine, userMessage), (hiddenLine, hiddenMessage)]"

text \<open>\<open>JSON.stringify\<close> on the messages of a table; the empty string for any other.\<close>

definition stringifyTable :: "(string \<times> PersistentMessage) list \<Rightarrow> PersistentMessage \<Rightarrow> string" where
  "stringifyTable table message =
     (case filter (\<lambda>entry. snd entry = message) table of [] \<Rightarrow> [] | entry # _ \<Rightarrow> fst entry)"

text \<open>A log that holds the first record and, cut short, the beginning of the second.\<close>

definition cutLog :: MessageFiles where
  "cutLog = (\<lambda>sessionId. None)(''s1'' \<mapsto> userLine @ [newline] @ take 20 hiddenLine)"

text \<open>
  An environment for a run: a 1920 x 1080 screenshot, a planning model that answers
  with the given stream, tools that answer \<open>ok\<close>, and a grounding with the given
  result and no events.
\<close>

definition exampleScreenshot :: Image where
  "exampleScreenshot =
     \<lparr>img_buffer = ''png'', img_resolution = \<lparr>width = 1920, height = 1080\<rparr>,
      img_mimeType = ''image/png''\<rparr>"

definition exampleEnv :: "LlmStream \<Rightarrow> GroundResult \<Rightarrow> Env" where
  "exampleEnv answer grounding =
     \<lparr>env_model = ''gemini-2.5-pro'',
      env_hasComputerTool = True,
      env_screenshot = (\<lambda>trace. Inr exampleScreenshot),
      env_now = (\<lambda>trace. ''1/1/2025, 12:00:00 AM''),
      env_saveImage = (\<lambda>trace buffer nameSuffix. nameSuffix @ ''.png''),
      env_crop = (\<lambda>buffer startPoint side. buffer),
      env_generate = (\<lambda>trace contents. answer),
      env_newId = (\<lambda>trace position name. name @ ''-1''),
      env_execute = (\<lambda>trace functionCall. ToolCallParts [StringPart ''ok'']),
      env_schemaValidate = (\<lambda>args. None),
      env_ground = (\<lambda>trace tool functionCall screenshot tiles.
                      \<lparr>ground_events = [], ground_result = grounding\<rparr>)\<rparr>"

definition emptyAnswer :: LlmStream where
  "emptyAnswer = \<lparr>stream_chunks = [], stream_failure = None\<rparr>"

definition thoughtAnswer :: LlmStream where
  "thoughtAnswer =
     \<lparr>stream_chunks = [\<lparr>chunk_parts = [thoughtPart ''The menu is ''], chunk_functionCalls = []\<rparr>,
                        \<lparr>chunk_parts = [thoughtPart ''at the top.''], chunk_functionCalls = []\<rparr>],
      stream_failure = None\<rparr>"

definition noGrounding :: GroundResult where
  "noGrounding = GroundFails ''Failed to detect element: Error: No response text''"

text \<open>A state at the planning of a first turn, with the text of the user alone.\<close>

definition exampleState :: AgentState where
  "exampleState =
     \<lparr>st_trace = [], st_history = [], st_shared = False,
      st_currentParts = [textPart ''Open the file menu''], st_turnCount = 1\<rparr>"

text \<open>
  A computer tool call of the planning model, the call grounded at (162, 162), and the
  decision of the user to reject it.
\<close>

definition clickCall :: FunctionCall where
  "clickCall =
     \<lparr>fc_id = ''computer_click-1'', fc_name = ''computer_click'',
      fc_args = JObj [(''image_id'', JNum (JsNumber False [] 0)),
                      (''element_description'', JStr ''File menu'')]\<rparr>"

definition groundedClick :: FunctionCall where
  "groundedClick =
     \<lparr>fc_id = ''computer_click-1'', fc_name = ''.computer'',
      fc_args = JObj [(''action'', JStr ''click''),
                      (''coordinate'', JArr [JNum (JsNumber False [1,6,2] 3),
                                             JNum (JsNumber False [1,6,2] 3)])]\<rparr>"

definition rejectClick :: ToolDecision where
  "rejectClick =
     \<lparr>td_functionCall = groundedClick, td_originalFunctionCall = clickCall,
      td_response = RejectOnce\<rparr>"








text \<open>
  A log with a message of the user and an answer of the model that has a thought.
\<close>

definition thoughtMessage :: PersistentMessage where
  "thoughtMessage =
     \<lparr>pm_id = ''3'', pm_role = Model,
      pm_content = [ThoughtBlock ''The menu is at the top.'', TextBlock ''Which menu?''],
      pm_toolReview = None, pm_forDisplay = None, pm_timestamp = ''2025-01-01T00:00:02.000Z''\<rparr>"

definition thoughtLine :: string where
  "thoughtLine =
     ''{\"id\":\"3\",\"role\":\"model\",\"content\":[{\"thought\":\"The menu is at the top.\"},{\"text\":\"Which menu?\"}],\"timestamp\":\"2025-01-01T00:00:02.000Z\"}''"

definition thoughtTable :: "(string \<times> PersistentMessage) list" where
  "thoughtTable = [(userLine, userMessage), (thoughtLine, thoughtMessage)]"

definition thoughtLog :: MessageFiles where
  "thoughtLog = (\<lambda>sessionId. None)(''s1'' \<mapsto> userLine @ [newline] @ thoughtLine @ [newline])"

section \<open>Properties of the screen geometry\<close>

subsection \<open>The starting points of the tiles\<close>

text \<open>
  With a positive step the loop of \<open>setCropConfiguration\<close> returns, and it pushes the
  multiples of the step that leave room for a whole tile.
\<close>

lemma pushStartingPoints_closed:
  assumes "0 < cropStep"
  shows "pushStartingPoints mk cropStep side limit v pts =
           Some (pts @ map (\<lambda>k. mk (v + int k * cropStep))
                         [0..<nat ((limit - side - v + cropStep - 1) div cropStep)])"
proof (induction "nat (limit - side - v)" arbitrary: v pts rule: less_induct)
  case less
  show ?case
  proof (cases "v + side < limit")
    case False
    then have "(limit - side - v + cropStep - 1) div cropStep \<le> (cropStep - 1) div cropStep"
      using assms by (intro zdiv_mono1) auto
    then have "(limit - side - v + cropStep - 1) div cropStep \<le> 0"
      using assms by simp
    then show ?thesis using False
      by (subst pushStartingPoints.simps) simp
  next
    case True
    let ?n2 = "nat ((limit - side - (v + cropStep) + cropStep - 1) div cropStep)"
    have lt: "nat (limit - side - (v + cropStep)) < nat (limit - side - v)"
      using True assms by linarith
    have ge: "0 \<le> (limit - side - v - 1) div cropStep"
      using True assms by (simp add: pos_imp_zdiv_nonneg_iff)
    have "(limit - side - v + cropStep - 1) div cropStep = (limit - side - v - 1) div cropStep + 1"
      using assms
      by (metis add.commute add_diff_eq div_add_self1 order.asym)
    then have n: "nat ((limit - side - v + cropStep - 1) div cropStep) = Suc ?n2"
      using ge by (simp add: Suc_nat_eq_nat_zadd1 algebra_simps)
    have "pushStartingPoints mk cropStep side limit v pts =
            pushStartingPoints mk cropStep side limit (v + cropStep) (pts @ [mk v])"
      using True by (subst pushStartingPoints.simps) simp
    also have "\<dots> = Some ((pts @ [mk v]) @ map (\<lambda>k. mk (v + cropStep + int k * cropStep)) [0..<?n2])"
      using less[OF lt] by simp
    also have "(pts @ [mk v]) @ map (\<lambda>k. mk (v + cropStep + int k * cropStep)) [0..<?n2] =
               pts @ map (\<lambda>k. mk (v + int k * cropStep)) [0..<Suc ?n2]"
      by (simp add: map_upt_Suc algebra_simps del: upt_Suc)
    finally show ?thesis using n by simp
  qed
qed

lemma roundHalf_pos: "1 \<le> n \<Longrightarrow> 0 < roundHalf n"
  by (simp add: roundHalf_def)

lemma vertical_starting_points:
  assumes wide: "height res < width res" and pos: "1 \<le> height res"
  shows "setCropConfiguration res =
           Some \<lparr>resolution = res, cropDirection = Vertical,
                 cropSquareSideLength = height res,
                 squareStartingPoints =
                   map (\<lambda>k. pointOnX (int k * roundHalf (height res)))
                     [0..<Suc (nat ((width res - height res - 1) div roundHalf (height res)))]
                   @ [pointOnX (width res - height res)]\<rparr>"
proof -
  let ?s = "height res" and ?w = "width res"
  let ?step = "roundHalf ?s"
  let ?n = "nat ((?w - ?s - 1) div ?step)"
  have step: "0 < ?step" using pos by (rule roundHalf_pos)
  have loop: "pushStartingPoints pointOnX ?step ?s ?w ?step [pointOnX 0] =
          Some (map (\<lambda>k. pointOnX (int k * ?step)) [0..<Suc ?n])"
    using pushStartingPoints_closed[OF step, of pointOnX ?s ?w ?step "[pointOnX 0]"]
    by (simp add: map_upt_Suc algebra_simps del: upt_Suc)
  have nonneg: "0 \<le> (?w - ?s - 1) div ?step"
    using wide step by (simp add: pos_imp_zdiv_nonneg_iff)
  have "(?w - ?s - 1) div ?step * ?step + (?w - ?s - 1) mod ?step = ?w - ?s - 1"
    by simp
  moreover have "0 \<le> (?w - ?s - 1) mod ?step"
    using step by simp
  ultimately have "(?w - ?s - 1) div ?step * ?step \<le> ?w - ?s - 1"
    by linarith
  then have "int ?n * ?step \<le> ?w - ?s - 1"
    using nonneg by simp
  then have last: "coord_x (last (map (\<lambda>k. pointOnX (int k * ?step)) [0..<Suc ?n])) < ?w - ?s"
    by (simp add: pointOnX_def)
  show ?thesis
    unfolding setCropConfiguration_def Let_def
    using wide loop last by (simp add: min_def del: upt_Suc)
qed

text \<open>
  Claim C5, as the code has it. For a screenshot wider than tall, of height at least 1,
  the constructor returns; the tile side is the height; there are at least two starting
  points, the first is the origin and all lie on the top edge; every starting point
  except the last two is followed by one that is \<open>round(s * 0.5)\<close> further right; the
  last starting point, the capping one, lies at most \<open>round(s * 0.5)\<close> and at least 1 to
  the right of the one before it, the second to last; every tile fits in the width and the last tile ends
  exactly at the right edge.
\<close>

theorem starting_points_wide:
  assumes wide: "height res < width res" and pos: "1 \<le> height res"
  shows "\<exists>scr. setCropConfiguration res = Some scr \<and>
           cropSquareSideLength scr = height res \<and>
           (let pts = squareStartingPoints scr; s = height res; n = length pts
            in 2 \<le> n \<and> pts ! 0 = \<lparr>coord_x = 0, coord_y = 0\<rparr> \<and>
               (\<forall>i. i + 2 < n \<longrightarrow>
                    coord_x (pts ! (i + 1)) - coord_x (pts ! i) = roundHalf s) \<and>
               0 < coord_x (pts ! (n - 1)) - coord_x (pts ! (n - 2)) \<and>
               coord_x (pts ! (n - 1)) - coord_x (pts ! (n - 2)) \<le> roundHalf s \<and>
               (\<forall>p \<in> set pts. coord_x p + s \<le> width res \<and> coord_y p = 0) \<and>
               coord_x (last pts) + s = width res)"
proof -
  let ?s = "height res" and ?w = "width res"
  let ?step = "roundHalf ?s"
  let ?q = "(?w - ?s - 1) div ?step"
  let ?n = "nat ?q"
  let ?f = "\<lambda>k. pointOnX (int k * ?step)"
  let ?pts = "map ?f [0..<Suc ?n] @ [pointOnX (?w - ?s)]"
  have step: "0 < ?step" using pos by (rule roundHalf_pos)
  have nonneg: "0 \<le> ?q"
    using wide step by (simp add: pos_imp_zdiv_nonneg_iff)
  have decomp: "?q * ?step + (?w - ?s - 1) mod ?step = ?w - ?s - 1"
    by simp
  have m0: "0 \<le> (?w - ?s - 1) mod ?step" and m1: "(?w - ?s - 1) mod ?step < ?step"
    using step by simp_all
  have nq: "int ?n = ?q" using nonneg by simp
  have len: "length ?pts = ?n + 2" by simp
  have front: "?pts ! i = ?f i" if "i \<le> ?n" for i
    using that by (simp add: nth_append del: upt_Suc)
  have tailpt: "?pts ! (?n + 1) = pointOnX (?w - ?s)"
    by (simp add: nth_append del: upt_Suc)
  have gaps: "coord_x (?pts ! (i + 1)) - coord_x (?pts ! i) = ?step" if "i + 2 < ?n + 2" for i
  proof -
    from that have "i \<le> ?n" "i + 1 \<le> ?n" by simp_all
    then show ?thesis
      by (simp only: front) (simp add: pointOnX_def algebra_simps)
  qed
  have lastgap: "coord_x (?pts ! (?n + 1)) - coord_x (?pts ! ?n) = (?w - ?s - 1) mod ?step + 1"
  proof -
    have "coord_x (?pts ! (?n + 1)) = ?w - ?s"
      by (simp only: tailpt) (simp add: pointOnX_def)
    moreover have "coord_x (?pts ! ?n) = ?q * ?step"
      using nq by (simp only: front[OF order_refl]) (simp add: pointOnX_def)
    ultimately show ?thesis using decomp by linarith
  qed
  have bound: "coord_x p + ?s \<le> ?w \<and> coord_y p = 0" if "p \<in> set ?pts" for p
  proof -
    from that consider k where "k \<le> ?n" "p = ?f k" | "p = pointOnX (?w - ?s)"
      by (fastforce simp: less_Suc_eq_le simp del: upt_Suc)
    then show ?thesis
    proof cases
      case 1
      then have "int k \<le> ?q" using nonneg by linarith
      then have "int k * ?step \<le> ?q * ?step"
        using step by (intro mult_right_mono) simp_all
      moreover have "coord_x p = int k * ?step" "coord_y p = 0"
        using 1 by (simp_all add: pointOnX_def)
      ultimately show ?thesis using decomp m0 by linarith
    next
      case 2
      then show ?thesis by (simp add: pointOnX_def)
    qed
  qed
  have first: "?pts ! 0 = \<lparr>coord_x = 0, coord_y = 0\<rparr>"
    by (simp only: front[of 0]) (simp add: pointOnX_def)
  have lastp: "coord_x (last ?pts) + ?s = ?w"
    by (simp add: pointOnX_def)
  have n1: "length ?pts - 1 = ?n + 1" and n2: "length ?pts - 2 = ?n"
    by simp_all
  let ?scr = "\<lparr>resolution = res, cropDirection = Vertical, cropSquareSideLength = ?s,
                squareStartingPoints = ?pts\<rparr>"
  have sel: "squareStartingPoints ?scr = ?pts" "cropSquareSideLength ?scr = ?s"
    by simp_all
  have f1: "setCropConfiguration res = Some ?scr"
    using wide pos by (rule vertical_starting_points)
  have f2: "2 \<le> length ?pts" by simp
  have f3: "\<forall>i. i + 2 < length ?pts \<longrightarrow>
                    coord_x (?pts ! (i + 1)) - coord_x (?pts ! i) = ?step"
    using gaps len by metis
  have f4: "0 < coord_x (?pts ! (length ?pts - 1)) - coord_x (?pts ! (length ?pts - 2))"
    using lastgap m0 unfolding n1 n2 by linarith
  have f5: "coord_x (?pts ! (length ?pts - 1)) - coord_x (?pts ! (length ?pts - 2)) \<le> ?step"
    using lastgap m1 unfolding n1 n2 by linarith
  have f6: "\<forall>p \<in> set ?pts. coord_x p + ?s \<le> ?w \<and> coord_y p = 0"
    using bound by blast
  show ?thesis
    unfolding Let_def
    apply (rule exI[of _ ?scr])
    apply (unfold sel)
    apply (intro conjI)
            apply (rule f1 refl f2 first f3 f4 f5 f6 lastp)+
    done
qed

text \<open>The theorem at a 1920 x 1080 screenshot.\<close>

theorem starting_points_wide_witness:
  "height \<lparr>width = 1920, height = 1080\<rparr> < width \<lparr>width = 1920, height = 1080\<rparr> \<and>
   1 \<le> height \<lparr>width = 1920, height = 1080\<rparr> \<and>
   (\<exists>scr. setCropConfiguration \<lparr>width = 1920, height = 1080\<rparr> = Some scr \<and>
          coord_x (last (squareStartingPoints scr)) + 1080 = 1920)"
  using starting_points_wide [of "\<lparr>width = 1920, height = 1080\<rparr>"]
  by (auto simp: Let_def)

text \<open>
  Claim C5 as stated fails for the capping point: a 1920 x 1080 screenshot has the
  starting points 0, 540 and 840, and the last two are 300 apart, not
  \<open>round(1080 * 0.5) = 540\<close>.
\<close>

theorem starting_points_step_counterexample:
  "setCropConfiguration \<lparr>width = 1920, height = 1080\<rparr> =
     Some \<lparr>resolution = \<lparr>width = 1920, height = 1080\<rparr>, cropDirection = Vertical,
           cropSquareSideLength = 1080,
           squareStartingPoints = [pointOnX 0, pointOnX 540, pointOnX 840]\<rparr> \<and>
   coord_x (pointOnX 840) - coord_x (pointOnX 540) \<noteq> roundHalf 1080"
  by (simp add: setCropConfiguration_def roundHalf_def pushStartingPoints.simps pointOnX_def)

subsection \<open>The center of a box and the midpoint of its rectangle\<close>

text \<open>Whatever happens at a tie, the rounded value is within one half of the exact one.\<close>

lemma unnormalize_bounds:
  "c * s - 500 \<le> 1000 * unnormalize below c s \<and> 1000 * unnormalize below c s \<le> c * s + 500"
proof (cases "(c * s) mod 1000 = 500 \<and> below c s")
  case True
  then have "unnormalize below c s = (c * s) div 1000"
    by (simp add: unnormalize_def)
  moreover have "1000 * ((c * s) div 1000) + (c * s) mod 1000 = c * s"
    by simp
  ultimately show ?thesis using True by linarith
next
  case False
  then have "unnormalize below c s = (c * s + 500) div 1000"
    by (auto simp add: unnormalize_def)
  moreover have "1000 * ((c * s + 500) div 1000) + (c * s + 500) mod 1000 = c * s + 500"
    by simp
  moreover have "0 \<le> (c * s + 500) mod 1000" "(c * s + 500) mod 1000 < 1000"
    by simp_all
  ultimately show ?thesis by linarith
qed

lemma midpoint_arith_upper:
  fixes L R ra rb ms as bs :: int
  assumes "1000 * L \<le> ms + 500"
      and "as - 500 \<le> 1000 * ra" and "bs - 500 \<le> 1000 * rb"
      and "ra + rb \<le> 2 * R + 1"
      and "2 * ms \<le> as + bs"
  shows "L - R \<le> 1"
  using assms by linarith

lemma midpoint_arith_lower:
  fixes L R ra rb s ms as bs :: int
  assumes "ms - 500 \<le> 1000 * L"
      and "1000 * ra \<le> as + 500" and "1000 * rb \<le> bs + 500"
      and "2 * R \<le> ra + rb"
      and "as + bs \<le> 2 * ms + s"
  shows "R - L \<le> 1 + s div 2000"
proof -
  have "2000 * R \<le> 1000 * ra + 1000 * rb" using assms(4) by simp
  also have "\<dots> \<le> as + bs + 1000" using assms(2,3) by simp
  also have "\<dots> \<le> 2 * ms + s + 1000" using assms(5) by simp
  also have "\<dots> \<le> 2000 * L + 2000 + s" using assms(1) by simp
  finally have "2000 * (R - L) \<le> 2000 + s" by (simp add: algebra_simps)
  then have "(2000 * (R - L)) div 2000 \<le> (2000 + s) div 2000"
    by (intro zdiv_mono1) simp_all
  then show ?thesis by simp
qed

lemma center_near_midpoint:
  assumes s: "0 \<le> s"
  shows "unnormalize below ((a + b) div 2) s
           - (unnormalize below a s + unnormalize below b s) div 2 \<le> 1"
    and "(unnormalize below a s + unnormalize below b s) div 2
           - unnormalize below ((a + b) div 2) s \<le> 1 + s div 2000"
proof -
  define m where "m = (a + b) div 2"
  define L where "L = unnormalize below m s"
  define ra where "ra = unnormalize below a s"
  define rb where "rb = unnormalize below b s"
  define R where "R = (ra + rb) div 2"
  have m: "2 * m \<le> a + b" "a + b \<le> 2 * m + 1" unfolding m_def by linarith+
  have R: "2 * R \<le> ra + rb" "ra + rb \<le> 2 * R + 1" unfolding R_def by linarith+
  have "(2 * m) * s \<le> (a + b) * s" using m(1) s by (rule mult_right_mono)
  then have ms1: "2 * (m * s) \<le> a * s + b * s" by (simp add: algebra_simps)
  have "(a + b) * s \<le> (2 * m + 1) * s" using m(2) s by (rule mult_right_mono)
  then have ms2: "a * s + b * s \<le> 2 * (m * s) + s" by (simp add: algebra_simps)
  have bL: "m * s - 500 \<le> 1000 * L" "1000 * L \<le> m * s + 500"
    using unnormalize_bounds[of m s below] by (simp_all add: L_def)
  have ba: "a * s - 500 \<le> 1000 * ra" "1000 * ra \<le> a * s + 500"
    using unnormalize_bounds[of a s below] by (simp_all add: ra_def)
  have bb: "b * s - 500 \<le> 1000 * rb" "1000 * rb \<le> b * s + 500"
    using unnormalize_bounds[of b s below] by (simp_all add: rb_def)
  have one: "L - R \<le> 1"
    using bL(2) ba(1) bb(1) R(2) ms1 by (rule midpoint_arith_upper)
  have two: "R - L \<le> 1 + s div 2000"
    using bL(1) ba(2) bb(2) R(1) ms2 by (rule midpoint_arith_lower)
  show "unnormalize below ((a + b) div 2) s
           - (unnormalize below a s + unnormalize below b s) div 2 \<le> 1"
    using one by (simp add: L_def R_def ra_def rb_def m_def)
  show "(unnormalize below a s + unnormalize below b s) div 2
           - unnormalize below ((a + b) div 2) s \<le> 1 + s div 2000"
    using two by (simp add: L_def R_def ra_def rb_def m_def)
qed

lemma shifted_midpoint: "(p + a + (p + b)) div 2 = p + (a + b) div (2::int)"
  by linarith

lemma toScreenCoordinate_Some:
  assumes "index < length (squareStartingPoints scr)"
  shows "toScreenCoordinate below scr index boc =
           Some \<lparr>coord_x = coord_x (squareStartingPoints scr ! index) +
                    unnormalize below
                      (coord_x (case boc of IsBox b \<Rightarrow> getBoxCenter b | IsCoordinate c \<Rightarrow> c))
                      (cropSquareSideLength scr),
                 coord_y = coord_y (squareStartingPoints scr ! index) +
                    unnormalize below
                      (coord_y (case boc of IsBox b \<Rightarrow> getBoxCenter b | IsCoordinate c \<Rightarrow> c))
                      (cropSquareSideLength scr)\<rparr>"
  using assms by (simp add: toScreenCoordinate_def Let_def)

text \<open>
  Claim C3, as the code has it. For a screen with a non-negative tile side \<open>s\<close>, a
  tile index in range and any box, the de-normalized center of the box and the floor of
  the midpoint of the de-normalized rectangle both exist, and in each coordinate the
  center exceeds the midpoint by at most 1 and the midpoint exceeds the center by at
  most \<open>1 + s div 2000\<close>.
\<close>

theorem box_center_near_rectangle_midpoint:
  assumes idx: "index < length (squareStartingPoints scr)"
      and side: "0 \<le> cropSquareSideLength scr"
  shows "\<exists>c r. toScreenCoordinate below scr index (IsBox box) = Some c \<and>
               toScreenRectangle below scr index box = Some r \<and>
               coord_x c - coord_x (rectangleMidpoint r) \<le> 1 \<and>
               coord_x (rectangleMidpoint r) - coord_x c \<le> 1 + cropSquareSideLength scr div 2000 \<and>
               coord_y c - coord_y (rectangleMidpoint r) \<le> 1 \<and>
               coord_y (rectangleMidpoint r) - coord_y c \<le> 1 + cropSquareSideLength scr div 2000"
proof -
  let ?s = "cropSquareSideLength scr"
  let ?p = "squareStartingPoints scr ! index"
  let ?u = "unnormalize below"
  let ?c = "\<lparr>coord_x = coord_x ?p + ?u ((xmin box + xmax box) div 2) ?s,
             coord_y = coord_y ?p + ?u ((ymin box + ymax box) div 2) ?s\<rparr>"
  let ?r = "\<lparr>rectLeft = coord_x ?p + ?u (xmin box) ?s, rectTop = coord_y ?p + ?u (ymin box) ?s,
             rectWidth = (coord_x ?p + ?u (xmax box) ?s) - (coord_x ?p + ?u (xmin box) ?s),
             rectHeight = (coord_y ?p + ?u (ymax box) ?s) - (coord_y ?p + ?u (ymin box) ?s)\<rparr>"
  have c: "toScreenCoordinate below scr index (IsBox box) = Some ?c"
    by (simp add: toScreenCoordinate_Some[OF idx] getBoxCenter_def)
  have r: "toScreenRectangle below scr index box = Some ?r"
    by (simp add: toScreenRectangle_def toScreenCoordinate_Some[OF idx])
  have mx: "coord_x (rectangleMidpoint ?r) =
              coord_x ?p + (?u (xmin box) ?s + ?u (xmax box) ?s) div 2"
    by (simp add: rectangleMidpoint_def shifted_midpoint)
  have my: "coord_y (rectangleMidpoint ?r) =
              coord_y ?p + (?u (ymin box) ?s + ?u (ymax box) ?s) div 2"
    by (simp add: rectangleMidpoint_def shifted_midpoint)
  note x = center_near_midpoint[OF side, of below "xmin box" "xmax box"]
  note y = center_near_midpoint[OF side, of below "ymin box" "ymax box"]
  have "coord_x ?c - coord_x (rectangleMidpoint ?r) \<le> 1"
    using x(1) unfolding mx by simp
  moreover have "coord_x (rectangleMidpoint ?r) - coord_x ?c \<le> 1 + ?s div 2000"
    using x(2) unfolding mx by simp
  moreover have "coord_y ?c - coord_y (rectangleMidpoint ?r) \<le> 1"
    using y(1) unfolding my by simp
  moreover have "coord_y (rectangleMidpoint ?r) - coord_y ?c \<le> 1 + ?s div 2000"
    using y(2) unfolding my by simp
  ultimately show ?thesis using c r by blast
qed

text \<open>The theorem on the first tile of a 1920 x 1080 screenshot, for the box of scenario S1.\<close>

theorem box_center_near_rectangle_midpoint_witness:
  "0 < length (squareStartingPoints
        \<lparr>resolution = \<lparr>width = 1920, height = 1080\<rparr>, cropDirection = Vertical,
         cropSquareSideLength = 1080,
         squareStartingPoints = [pointOnX 0, pointOnX 540, pointOnX 840]\<rparr>) \<and>
   0 \<le> cropSquareSideLength
        \<lparr>resolution = \<lparr>width = 1920, height = 1080\<rparr>, cropDirection = Vertical,
         cropSquareSideLength = 1080,
         squareStartingPoints = [pointOnX 0, pointOnX 540, pointOnX 840]\<rparr> \<and>
   (\<exists>c r. toScreenCoordinate (\<lambda>c s. False)
             \<lparr>resolution = \<lparr>width = 1920, height = 1080\<rparr>, cropDirection = Vertical,
              cropSquareSideLength = 1080,
              squareStartingPoints = [pointOnX 0, pointOnX 540, pointOnX 840]\<rparr> 0
             (IsBox \<lparr>ymin = 100, xmin = 100, ymax = 200, xmax = 200\<rparr>) = Some c \<and>
          toScreenRectangle (\<lambda>c s. False)
             \<lparr>resolution = \<lparr>width = 1920, height = 1080\<rparr>, cropDirection = Vertical,
              cropSquareSideLength = 1080,
              squareStartingPoints = [pointOnX 0, pointOnX 540, pointOnX 840]\<rparr> 0
             \<lparr>ymin = 100, xmin = 100, ymax = 200, xmax = 200\<rparr> = Some r \<and>
          coord_x c - coord_x (rectangleMidpoint r) \<le> 1 \<and>
          coord_x (rectangleMidpoint r) - coord_x c \<le> 1)"
  using box_center_near_rectangle_midpoint
    [of 0 "\<lparr>resolution = \<lparr>width = 1920, height = 1080\<rparr>, cropDirection = Vertical,
           cropSquareSideLength = 1080,
           squareStartingPoints = [pointOnX 0, pointOnX 540, pointOnX 840]\<rparr>"
        "\<lambda>c s. False" "\<lparr>ymin = 100, xmin = 100, ymax = 200, xmax = 200\<rparr>"]
  by auto

text \<open>
  Claim C3 as stated fails. On the first tile of a 1920 x 1080 screenshot (the screen
  that \<open>setCropConfiguration\<close> builds, tile side 1080) the box with both coordinates
  from 0 to 7 has the center 3, de-normalized to \<open>round(3.24) = 3\<close>, while its rectangle
  runs from \<open>round(0) = 0\<close> to \<open>round(7.56) = 8\<close> and has the midpoint 4. No product
  is at a tie, so the choice at ties plays no part.
\<close>

theorem box_center_midpoint_counterexample:
  "setCropConfiguration \<lparr>width = 1920, height = 1080\<rparr> =
     Some \<lparr>resolution = \<lparr>width = 1920, height = 1080\<rparr>, cropDirection = Vertical,
           cropSquareSideLength = 1080,
           squareStartingPoints = [pointOnX 0, pointOnX 540, pointOnX 840]\<rparr> \<and>
   toScreenCoordinate (\<lambda>c s. False)
     \<lparr>resolution = \<lparr>width = 1920, height = 1080\<rparr>, cropDirection = Vertical,
      cropSquareSideLength = 1080,
      squareStartingPoints = [pointOnX 0, pointOnX 540, pointOnX 840]\<rparr> 0
     (IsBox \<lparr>ymin = 0, xmin = 0, ymax = 7, xmax = 7\<rparr>) =
     Some \<lparr>coord_x = 3, coord_y = 3\<rparr> \<and>
   map_option rectangleMidpoint
     (toScreenRectangle (\<lambda>c s. False)
        \<lparr>resolution = \<lparr>width = 1920, height = 1080\<rparr>, cropDirection = Vertical,
         cropSquareSideLength = 1080,
         squareStartingPoints = [pointOnX 0, pointOnX 540, pointOnX 840]\<rparr> 0
        \<lparr>ymin = 0, xmin = 0, ymax = 7, xmax = 7\<rparr>) =
     Some \<lparr>coord_x = 4, coord_y = 4\<rparr> \<and>
   (0::int) \<le> 0 \<and> (7::int) \<le> 1000 \<and> (0::int) < 7"
  by (simp add: setCropConfiguration_def roundHalf_def pushStartingPoints.simps pointOnX_def
      toScreenCoordinate_def toScreenRectangle_def getBoxCenter_def unnormalize_def
      rectangleMidpoint_def)

section \<open>Properties of the session repository\<close>

subsection \<open>Lines of a log\<close>

lemma splitOn_nonempty: "splitOn d s \<noteq> []"
  by (induction s) (auto split: list.splits)

lemma splitOn_no_separator: "d \<notin> set s \<Longrightarrow> splitOn d s = [s]"
  by (induction s) auto

lemma splitOn_append_fragment:
  "d \<notin> set frag \<Longrightarrow>
     splitOn d (pre @ frag) = butlast (splitOn d pre) @ [last (splitOn d pre) @ frag]"
proof (induction pre)
  case Nil
  then show ?case by (simp add: splitOn_no_separator)
next
  case (Cons c pre)
  then show ?case
    using splitOn_nonempty[of d pre] splitOn_nonempty[of d "pre @ frag"]
    by (cases "splitOn d pre"; cases "splitOn d (pre @ frag)") (auto split: if_splits)
qed

lemma splitOn_snoc_separator: "splitOn d (pre @ [d]) = splitOn d pre @ [[]]"
  by (induction pre) (auto simp: splitOn_nonempty split: list.splits)

lemma splitOn_complete:
  assumes "complete = [] \<or> last complete = d"
  shows "\<exists>ls. splitOn d complete = ls @ [[]]"
proof (cases "complete = []")
  case True
  then show ?thesis by simp
next
  case False
  with assms have "complete = butlast complete @ [d]"
    by (metis append_butlast_last_id)
  then show ?thesis
    by (metis splitOn_snoc_separator)
qed

lemma parseLines_snoc:
  "parseLines parse (ls @ [l]) =
     (case parseLines parse ls of
        Inl e \<Rightarrow> Inl e
      | Inr ms \<Rightarrow> (case parse l of None \<Rightarrow> Inl (SyntaxError l) | Some m \<Rightarrow> Inr (ms @ [m])))"
  by (induction ls) (auto split: option.splits sum.splits)

lemma parseLines_append:
  "parseLines parse (ls @ ls') =
     (case parseLines parse ls of
        Inl e \<Rightarrow> Inl e
      | Inr ms \<Rightarrow> (case parseLines parse ls' of Inl e \<Rightarrow> Inl e | Inr ms' \<Rightarrow> Inr (ms @ ms')))"
  by (induction ls) (auto split: option.splits sum.splits)

lemma nonBlank_Nil: "\<not> nonBlank []"
  by (simp add: nonBlank_def)

lemma lines_with_fragment:
  assumes "complete = [] \<or> last complete = newline" and "newline \<notin> set frag"
  shows "\<exists>ls. filter nonBlank (splitOn newline complete) = filter nonBlank ls \<and>
              filter nonBlank (splitOn newline (complete @ frag)) =
                filter nonBlank ls @ (if nonBlank frag then [frag] else [])"
proof -
  from splitOn_complete[OF assms(1)] obtain ls where ls: "splitOn newline complete = ls @ [[]]"
    by blast
  then have "splitOn newline (complete @ frag) = ls @ [frag]"
    using splitOn_append_fragment[OF assms(2), of complete] by simp
  with ls show ?thesis
    by (intro exI[of _ ls]) (simp add: nonBlank_Nil)
qed

subsection \<open>A partial line at the end of the log\<close>

text \<open>
  Claim C4, as the code has it. Let the log be complete lines (empty, or ending in a
  line feed) followed by a fragment with no line feed. If the fragment is blank,
  \<open>getMessages\<close> returns what it returns for the complete lines alone. If the fragment is
  not blank it is parsed like any line: when the complete lines parse and the fragment
  does not, \<open>getMessages\<close> fails with the SyntaxError of the fragment; it does not treat
  the fragment as absent.
\<close>

theorem getMessages_trailing_fragment:
  assumes content: "files sessionId = Some (complete @ frag)"
      and complete: "complete = [] \<or> last complete = newline"
      and frag: "newline \<notin> set frag"
  shows "getMessages parse files sessionId includeHidden =
           (if nonBlank frag
            then (case getMessages parse (files(sessionId \<mapsto> complete)) sessionId True of
                    Inl e \<Rightarrow> Inl e
                  | Inr messages \<Rightarrow>
                      (case parse frag of
                         None \<Rightarrow> Inl (SyntaxError frag)
                       | Some message \<Rightarrow>
                           Inr (if includeHidden then messages @ [message]
                                else filter (\<lambda>message. pm_forDisplay message \<noteq> Some False)
                                       (messages @ [message]))))
            else getMessages parse (files(sessionId \<mapsto> complete)) sessionId includeHidden)"
proof -
  from lines_with_fragment[OF complete frag] obtain ls where
    a: "filter nonBlank (splitOn newline complete) = filter nonBlank ls" and
    b: "filter nonBlank (splitOn newline (complete @ frag)) =
          filter nonBlank ls @ (if nonBlank frag then [frag] else [])"
    by blast
  show ?thesis
    using content
    by (auto simp add: getMessages_def a b parseLines_snoc split: sum.splits option.splits)
qed

text \<open>The theorem on the log whose second record is cut after 20 characters.\<close>

theorem getMessages_trailing_fragment_witness:
  "cutLog ''s1'' = Some ((userLine @ [newline]) @ take 20 hiddenLine) \<and>
   (userLine @ [newline] = [] \<or> last (userLine @ [newline]) = newline) \<and>
   newline \<notin> set (take 20 hiddenLine) \<and>
   getMessages (parseTable messageTable) cutLog ''s1'' False =
     Inl (SyntaxError (take 20 hiddenLine))"
proof -
  have a: "cutLog ''s1'' = Some ((userLine @ [newline]) @ take 20 hiddenLine)"
    by (simp add: cutLog_def)
  have b: "userLine @ [newline] = [] \<or> last (userLine @ [newline]) = newline"
    by simp
  have c: "newline \<notin> set (take 20 hiddenLine)"
    by (simp add: hiddenLine_def newline_def)
  have d: "nonBlank (take 20 hiddenLine)"
    by (simp add: nonBlank_def hiddenLine_def isWhiteSpace_def)
  have e: "parseTable messageTable (take 20 hiddenLine) = None"
    by (simp add: parseTable_def messageTable_def hiddenLine_def userLine_def)
  have f: "getMessages (parseTable messageTable) (cutLog(''s1'' \<mapsto> userLine @ [newline])) ''s1'' True
             = Inr [userMessage]"
    by (simp add: getMessages_def splitOn_snoc_separator splitOn_no_separator userLine_def
        newline_def nonBlank_def isWhiteSpace_def parseTable_def messageTable_def)
  show ?thesis
    using getMessages_trailing_fragment
      [where files = cutLog and sessionId = "''s1''" and complete = "userLine @ [newline]"
         and frag = "take 20 hiddenLine" and parse = "parseTable messageTable"
         and includeHidden = False]
      a b c d e f
    by simp
qed

text \<open>
  Claim C4 as stated fails: for that log the complete lines hold one message, and
  \<open>getMessages\<close> does not return it but fails on the partial line.
\<close>

theorem getMessages_partial_line_counterexample:
  "getMessages (parseTable messageTable) ((\<lambda>sessionId. None)(''s1'' \<mapsto> userLine @ [newline]))
     ''s1'' True = Inr [userMessage] \<and>
   parseTable messageTable (take 20 hiddenLine) = None \<and>
   getMessages (parseTable messageTable)
     ((\<lambda>sessionId. None)(''s1'' \<mapsto> userLine @ [newline] @ take 20 hiddenLine)) ''s1'' True =
     Inl (SyntaxError (take 20 hiddenLine))"
  by (simp add: getMessages_def userLine_def hiddenLine_def newline_def nonBlank_def
      isWhiteSpace_def parseTable_def messageTable_def)

subsection \<open>Hidden messages and the order of the log\<close>

lemma getMessages_hidden_filter:
  "getMessages parse files sessionId False =
     map_sum (\<lambda>e. e) (filter (\<lambda>message. pm_forDisplay message \<noteq> Some False))
       (getMessages parse files sessionId True)"
  by (simp add: getMessages_def split: option.splits sum.splits)

lemma splitOn_appended_lines:
  assumes "splitOn newline content = ls @ [[]]"
      and "\<forall>l \<in> set new. newline \<notin> set l"
  shows "splitOn newline (content @ concat (map (\<lambda>l. l @ [newline]) new)) = ls @ new @ [[]]"
  using assms
proof (induction new arbitrary: content ls)
  case Nil
  then show ?case by simp
next
  case (Cons l new)
  have "splitOn newline (content @ l) = ls @ [l]"
    using splitOn_append_fragment[of newline l content] Cons.prems by simp
  then have "splitOn newline ((content @ l) @ [newline]) = (ls @ [l]) @ [[]]"
    by (simp only: splitOn_snoc_separator)
  then have "splitOn newline (((content @ l) @ [newline]) @ concat (map (\<lambda>l. l @ [newline]) new))
               = (ls @ [l]) @ new @ [[]]"
    using Cons.prems(2) by (intro Cons.IH) simp_all
  then show ?case by simp
qed

lemma parseLines_roundtrip:
  "\<forall>m \<in> set new. parse (stringify m) = Some m \<Longrightarrow>
     parseLines parse (map stringify new) = Inr new"
  by (induction new) auto

lemma appended_log:
  "foldl (\<lambda>files (s, messages). appendMessages stringify files s messages) files appends sessionId =
     (if filter (\<lambda>op. fst op = sessionId) appends = [] then files sessionId
      else Some ((case files sessionId of None \<Rightarrow> [] | Some content \<Rightarrow> content) @
                 concat (map (\<lambda>message. stringify message @ [newline])
                           (concat (map snd (filter (\<lambda>op. fst op = sessionId) appends))))))"
proof (induction appends arbitrary: files)
  case Nil
  show ?case by simp
next
  case (Cons op appends)
  obtain s messages where op: "op = (s, messages)" by (cases op)
  show ?case
    unfolding op
    by (simp add: Cons.IH) (simp add: appendMessages_def)
qed

lemma getMessages_complete_lines:
  assumes content: "files sessionId = Some (concat (map (\<lambda>message. stringify message @ [newline]) written))"
      and lines: "\<forall>m \<in> set written. parse (stringify m) = Some m \<and>
                    newline \<notin> set (stringify m) \<and> nonBlank (stringify m)"
  shows "getMessages parse files sessionId True = Inr written"
proof -
  have "splitOn newline [] = [] @ [[]]" by simp
  moreover have "\<forall>l \<in> set (map stringify written). newline \<notin> set l"
    using lines by simp
  ultimately have
    "splitOn newline ([] @ concat (map (\<lambda>l. l @ [newline]) (map stringify written))) =
       [] @ map stringify written @ [[]]"
    by (rule splitOn_appended_lines)
  then have split: "splitOn newline (concat (map (\<lambda>message. stringify message @ [newline]) written)) =
       map stringify written @ [[]]"
    by (simp add: comp_def)
  have "filter nonBlank (map stringify written) = map stringify written"
    using lines by (simp add: filter_id_conv)
  then have "filter nonBlank (map stringify written @ [[]]) = map stringify written"
    by (simp add: nonBlank_Nil)
  moreover have "parseLines parse (map stringify written) = Inr written"
    using lines by (intro parseLines_roundtrip) simp
  ultimately show ?thesis
    using content split by (simp add: getMessages_def)
qed

lemma getMessages_after_appends:
  assumes fresh: "initial sessionId = None"
      and lines: "\<forall>m \<in> set (concat (map snd (filter (\<lambda>op. fst op = sessionId) appends))).
                    parse (stringify m) = Some m \<and>
                    newline \<notin> set (stringify m) \<and> nonBlank (stringify m)"
  shows "getMessages parse
           (foldl (\<lambda>files (s, messages). appendMessages stringify files s messages) initial
              (take n appends))
           sessionId True =
         (if filter (\<lambda>op. fst op = sessionId) (take n appends) = [] then Inl FileNotFound
          else Inr (concat (map snd (filter (\<lambda>op. fst op = sessionId) (take n appends)))))"
proof (cases "filter (\<lambda>op. fst op = sessionId) (take n appends) = []")
  case True
  then show ?thesis
    using fresh by (simp add: getMessages_def appended_log)
next
  case False
  let ?written = "concat (map snd (filter (\<lambda>op. fst op = sessionId) (take n appends)))"
  have "set ?written \<subseteq> set (concat (map snd (filter (\<lambda>op. fst op = sessionId) appends)))"
    by (auto dest: in_set_takeD)
  with lines have "\<forall>m \<in> set ?written. parse (stringify m) = Some m \<and>
                    newline \<notin> set (stringify m) \<and> nonBlank (stringify m)"
    by blast
  moreover have "foldl (\<lambda>files (s, messages). appendMessages stringify files s messages) initial
              (take n appends) sessionId =
        Some (concat (map (\<lambda>message. stringify message @ [newline]) ?written))"
    using False fresh by (simp add: appended_log)
  ultimately have "getMessages parse
           (foldl (\<lambda>files (s, messages). appendMessages stringify files s messages) initial
              (take n appends))
           sessionId True = Inr ?written"
    by (intro getMessages_complete_lines)
  with False show ?thesis by simp
qed

text \<open>
  Claim C9. Whatever the log holds, \<open>getMessages(id, false)\<close> is \<open>getMessages(id, true)\<close>
  with the messages of \<open>forDisplay = false\<close> filtered out (and fails when that fails).
  Both keep the order of appending, at every time: starting from a repository with no
  log for the session, after any number \<open>n\<close> of the calls of \<open>appendMessages\<close> listed in
  \<open>appends\<close> (each for any session and with any batch of messages, the first one for
  this session creating its log), the log of the session reads as the messages appended
  to it so far, batch after batch in the order of the calls, and as the visible ones
  among them in the same order when hidden messages are not included; before the
  first append for the session there is no file to read. \<open>JSON.parse\<close> is taken to read
  back each appended message from its line, a non-blank line with no line feed.
\<close>

theorem getMessages_filter_and_order:
  "getMessages parse files sessionId False =
     map_sum (\<lambda>e. e) (filter (\<lambda>message. pm_forDisplay message \<noteq> Some False))
       (getMessages parse files sessionId True) \<and>
   (initial sessionId = None \<and>
    (\<forall>m \<in> set (concat (map snd (filter (\<lambda>op. fst op = sessionId) appends))).
        parse (stringify m) = Some m \<and>
        newline \<notin> set (stringify m) \<and> nonBlank (stringify m)) \<longrightarrow>
    (let log = foldl (\<lambda>files (s, messages). appendMessages stringify files s messages) initial
                 (take n appends);
         written = concat (map snd (filter (\<lambda>op. fst op = sessionId) (take n appends)))
     in getMessages parse log sessionId True =
          (if filter (\<lambda>op. fst op = sessionId) (take n appends) = [] then Inl FileNotFound
           else Inr written) \<and>
        getMessages parse log sessionId False =
          (if filter (\<lambda>op. fst op = sessionId) (take n appends) = [] then Inl FileNotFound
           else Inr (filter (\<lambda>message. pm_forDisplay message \<noteq> Some False) written))))"
proof -
  have hidden: "getMessages parse fs sessionId False =
     map_sum (\<lambda>e. e) (filter (\<lambda>message. pm_forDisplay message \<noteq> Some False))
       (getMessages parse fs sessionId True)" for fs
    by (rule getMessages_hidden_filter)
  show ?thesis
    unfolding Let_def
    using hidden[of files]
      getMessages_after_appends[of initial sessionId appends parse stringify n]
    by (simp add: hidden[of "foldl (\<lambda>files (s, messages). appendMessages stringify files s messages)
                               initial (take n appends)"])
qed

text \<open>
  The theorem for a session that is created with an empty batch and then receives the
  first example record and, after an append to another session, the hidden second
  record: all messages are read in the order of the appends, the visible ones alone
  when hidden messages are left out.
\<close>

theorem getMessages_filter_and_order_witness:
  "(\<lambda>sessionId. None :: string option) ''s1'' = None \<and>
   parseTable messageTable (stringifyTable messageTable userMessage) = Some userMessage \<and>
   newline \<notin> set (stringifyTable messageTable userMessage) \<and>
   nonBlank (stringifyTable messageTable userMessage) \<and>
   parseTable messageTable (stringifyTable messageTable hiddenMessage) = Some hiddenMessage \<and>
   newline \<notin> set (stringifyTable messageTable hiddenMessage) \<and>
   nonBlank (stringifyTable messageTable hiddenMessage) \<and>
   getMessages (parseTable messageTable)
     (foldl (\<lambda>files (s, messages). appendMessages (stringifyTable messageTable) files s messages)
        (\<lambda>sessionId. None)
        [(''s1'', []), (''s1'', [userMessage]), (''s2'', [userMessage]), (''s1'', [hiddenMessage])])
     ''s1'' True = Inr [userMessage, hiddenMessage] \<and>
   getMessages (parseTable messageTable)
     (foldl (\<lambda>files (s, messages). appendMessages (stringifyTable messageTable) files s messages)
        (\<lambda>sessionId. None)
        [(''s1'', []), (''s1'', [userMessage]), (''s2'', [userMessage]), (''s1'', [hiddenMessage])])
     ''s1'' False = Inr [userMessage]"
proof -
  let ?appends = "[(''s1'', []), (''s1'', [userMessage]), (''s2'', [userMessage]),
                   (''s1'', [hiddenMessage])]"
  have su: "stringifyTable messageTable userMessage = userLine"
    by (simp add: stringifyTable_def messageTable_def)
  have sh: "stringifyTable messageTable hiddenMessage = hiddenLine"
    by (simp add: stringifyTable_def messageTable_def userMessage_def hiddenMessage_def)
  have lines:
    "parseTable messageTable userLine = Some userMessage \<and> newline \<notin> set userLine \<and>
     nonBlank userLine"
    "parseTable messageTable hiddenLine = Some hiddenMessage \<and> newline \<notin> set hiddenLine \<and>
     nonBlank hiddenLine"
    by (simp_all add: parseTable_def messageTable_def hiddenLine_def userLine_def
        newline_def nonBlank_def isWhiteSpace_def)
  have written: "concat (map snd (filter (\<lambda>op. fst op = ''s1'') ?appends)) =
                   [userMessage, hiddenMessage]"
    by simp
  have visible: "filter (\<lambda>message. pm_forDisplay message \<noteq> Some False) [userMessage, hiddenMessage]
             = [userMessage]"
    by (simp add: userMessage_def hiddenMessage_def)
  have some: "filter (\<lambda>op. fst op = ''s1'') ?appends \<noteq> []"
    by simp
  have all: "take 4 ?appends = ?appends"
    by simp
  note t = getMessages_filter_and_order
    [where parse = "parseTable messageTable" and stringify = "stringifyTable messageTable"
       and initial = "\<lambda>sessionId. None" and sessionId = "''s1''" and appends = ?appends
       and n = 4]
  from t have
    "getMessages (parseTable messageTable)
       (foldl (\<lambda>files (s, messages). appendMessages (stringifyTable messageTable) files s messages)
          (\<lambda>sessionId. None) ?appends)
       ''s1'' True = Inr [userMessage, hiddenMessage] \<and>
     getMessages (parseTable messageTable)
       (foldl (\<lambda>files (s, messages). appendMessages (stringifyTable messageTable) files s messages)
          (\<lambda>sessionId. None) ?appends)
       ''s1'' False = Inr [userMessage]"
    unfolding all written Let_def
    using some lines visible by (simp add: su sh)
  then show ?thesis
    using lines by (simp add: su sh)
qed

section \<open>Properties of the tool catalog\<close>

text \<open>
  Claim C8. The catalog has exactly five function declarations, named
  \<open>computer_click\<close>, \<open>computer_type\<close>, \<open>computer_drag_and_drop\<close>, \<open>computer_key\<close> and
  \<open>computer_wait\<close>, and for every argument object and whatever the schema validator
  does, \<open>getValidComputerTool\<close> answers \<open>computer_scroll\<close> with the error string
  \<open>Tool does not exist: computer_scroll\<close>.
\<close>

theorem catalog_has_five_tools_and_no_scroll:
  "map fd_name getComputerFunctionDeclarations =
     [''computer_click'', ''computer_type'', ''computer_drag_and_drop'', ''computer_key'',
      ''computer_wait''] \<and>
   length getComputerFunctionDeclarations = 5 \<and>
   getValidComputerTool schemaValidate ''computer_scroll'' args =
     ErrorString ''Tool does not exist: computer_scroll''"
  by (simp add: getComputerFunctionDeclarations_def computerTools_def functionDeclaration_def
      getValidComputerTool_def objectPrototypeNames_def)

section \<open>Properties of the agent loop\<close>

subsection \<open>An answer with thoughts only\<close>

text \<open>
  Chunks with no function call and no plain text leave the output and the function
  calls as they were and add nothing but stream messages to the events.
\<close>

lemma readChunks_no_output:
  assumes "\<forall>c \<in> set chunks. chunk_functionCalls c = [] \<and>
             (\<forall>t. getResponseText c = Some (TextDelta t) \<longrightarrow> t = [])"
  shows "fst (readChunks env role chunks (trace, r)) =
           trace @ map (StreamMessage role) (List.map_filter getResponseText chunks) \<and>
         sr_output (snd (readChunks env role chunks (trace, r))) = sr_output r \<and>
         sr_functionCalls (snd (readChunks env role chunks (trace, r))) = sr_functionCalls r"
  using assms
proof (induction chunks arbitrary: trace r)
  case Nil
  show ?case by (simp add: List.map_filter_simps)
next
  case (Cons c chunks)
  then have calls: "chunk_functionCalls c = []"
    and plain: "\<And>t. getResponseText c = Some (TextDelta t) \<Longrightarrow> t = []"
    and rest: "\<forall>c \<in> set chunks. chunk_functionCalls c = [] \<and>
             (\<forall>t. getResponseText c = Some (TextDelta t) \<longrightarrow> t = [])"
    by auto
  note IH = Cons.IH[OF rest]
  show ?case
  proof (cases "getResponseText c")
    case None
    then show ?thesis
      using calls by (simp add: IH strictFunctionCalls_def List.map_filter_simps)
  next
    case (Some t)
    show ?thesis
    proof (cases t)
      case (TextDelta u)
      with Some plain have "u = []" by simp
      with Some TextDelta calls show ?thesis
        by (simp add: IH strictFunctionCalls_def List.map_filter_simps)
    next
      case (ThoughtDelta u)
      with Some calls show ?thesis
        by (simp add: IH strictFunctionCalls_def List.map_filter_simps)
    qed
  qed
qed

lemma processStreamResponse_no_output:
  assumes "stream_failure responseStream = None"
      and "\<forall>c \<in> set (stream_chunks responseStream). chunk_functionCalls c = [] \<and>
             (\<forall>t. getResponseText c = Some (TextDelta t) \<longrightarrow> t = [])"
  shows "\<exists>result. processStreamResponse env role responseStream forDisplay trace =
           (trace @ map (StreamMessage role)
                      (List.map_filter getResponseText (stream_chunks responseStream)),
            Inr result) \<and> sr_output result = [] \<and> sr_functionCalls result = []"
proof -
  obtain trace' result where
    rc: "readChunks env role (stream_chunks responseStream)
           (trace, \<lparr>sr_thought = [], sr_output = [], sr_functionCalls = []\<rparr>) = (trace', result)"
    by (cases "readChunks env role (stream_chunks responseStream)
           (trace, \<lparr>sr_thought = [], sr_output = [], sr_functionCalls = []\<rparr>)")
  from readChunks_no_output[OF assms(2), of env role trace
      "\<lparr>sr_thought = [], sr_output = [], sr_functionCalls = []\<rparr>"] rc
  have "trace' = trace @ map (StreamMessage role)
                      (List.map_filter getResponseText (stream_chunks responseStream))"
    and "sr_output result = []" and "sr_functionCalls result = []"
    by simp_all
  then show ?thesis
    using assms(1) rc by (intro exI[of _ result]) (simp add: processStreamResponse_def)
qed

text \<open>
  The events of a run only grow: each step of a turn returns the events it was given
  followed by its own.
\<close>

lemma readChunks_extends:
  "\<exists>rest. fst (readChunks env role chunks (trace, r)) = trace @ rest"
proof (induction chunks arbitrary: trace r)
  case Nil
  show ?case by simp
next
  case (Cons c chunks)
  show ?case
  proof (cases "getResponseText c")
    case None
    then show ?thesis using Cons.IH by (simp add: Let_def)
  next
    case (Some t)
    obtain rest where
      "fst (readChunks env role chunks
              (trace @ [StreamMessage role t],
               \<lparr>sr_thought = sr_thought r @ (case Some t of Some (ThoughtDelta u) \<Rightarrow> u | _ \<Rightarrow> []),
                sr_output = sr_output r @ (case Some t of Some (TextDelta u) \<Rightarrow> u | _ \<Rightarrow> []),
                sr_functionCalls = sr_functionCalls r @
                  strictFunctionCalls env (trace @ [StreamMessage role t]) (chunk_functionCalls c)\<rparr>))
         = (trace @ [StreamMessage role t]) @ rest"
      using Cons.IH by blast
    with Some show ?thesis by (simp add: Let_def)
  qed
qed

lemma processStreamResponse_extends:
  "\<exists>rest. fst (processStreamResponse env role responseStream forDisplay trace) = trace @ rest"
proof -
  obtain trace' r where
    rc: "readChunks env role (stream_chunks responseStream)
           (trace, \<lparr>sr_thought = [], sr_output = [], sr_functionCalls = []\<rparr>) = (trace', r)"
    by (cases "readChunks env role (stream_chunks responseStream)
           (trace, \<lparr>sr_thought = [], sr_output = [], sr_functionCalls = []\<rparr>)")
  from readChunks_extends[of env role "stream_chunks responseStream" trace
      "\<lparr>sr_thought = [], sr_output = [], sr_functionCalls = []\<rparr>"] rc
  obtain rest where "trace' = trace @ rest" by auto
  then show ?thesis
    using rc by (auto simp: processStreamResponse_def split: option.splits)
qed

lemma planNextStep_extends:
  "\<exists>rest. st_trace (fst (planNextStep env extraPrompt st)) = requestTrace env extraPrompt st @ rest"
proof -
  obtain trace2 answer where
    p: "processStreamResponse env Model (answerOf env extraPrompt st) None
          (requestTrace env extraPrompt st) = (trace2, answer)"
    by (cases "processStreamResponse env Model (answerOf env extraPrompt st) None
          (requestTrace env extraPrompt st)")
  from processStreamResponse_extends[of env Model "answerOf env extraPrompt st" None
      "requestTrace env extraPrompt st"] p
  obtain rest where "trace2 = requestTrace env extraPrompt st @ rest" by auto
  then show ?thesis
    using p by (auto simp: planNextStep_def afterRequest_def split: sum.splits)
qed

lemma executeToolGetPart_extends:
  "fst (executeToolGetPart env functionCall originalFunctionCall trace) =
     trace @ [ExecuteToolCall functionCall]"
  by (simp add: executeToolGetPart_def Let_def split: ToolCallResult.splits sum.splits)

lemma executeDelayed_extends:
  "\<exists>rest. fst (executeDelayed env calls trace) = trace @ rest"
proof (induction calls arbitrary: trace)
  case Nil
  show ?case by simp
next
  case (Cons call calls)
  obtain functionCall originalFunctionCall where call: "call = (functionCall, originalFunctionCall)"
    by (cases call)
  obtain trace' started where
    e: "executeToolGetPart env functionCall (Some originalFunctionCall) trace = (trace', started)"
    by (cases "executeToolGetPart env functionCall (Some originalFunctionCall) trace")
  with executeToolGetPart_extends[of env functionCall "Some originalFunctionCall" trace]
  have t: "trace' = trace @ [ExecuteToolCall functionCall]" by simp
  obtain rest where "fst (executeDelayed env calls trace') = trace' @ rest"
    using Cons.IH by blast
  then show ?case
    using call e t by (auto split: prod.splits)
qed

lemma processFunctionCall_extends:
  "case processFunctionCall env allowedTools screenshot tiles fc cs of
     Inl (trace, e) \<Rightarrow> \<exists>rest. trace = cs_trace cs @ rest
   | Inr cs' \<Rightarrow> \<exists>rest. cs_trace cs' = cs_trace cs @ rest"
proof (cases "startsWith (fc_name fc) ''computer_''")
  case False
  obtain trace' started where
    e: "executeToolGetPart env fc (Some fc) (cs_trace cs) = (trace', started)"
    by (cases "executeToolGetPart env fc (Some fc) (cs_trace cs)")
  with executeToolGetPart_extends[of env fc "Some fc" "cs_trace cs"]
  have "trace' = cs_trace cs @ [ExecuteToolCall fc]" by simp
  then show ?thesis
    using False e by (simp add: processFunctionCall_def split: sum.splits)
next
  case True
  then show ?thesis
    by (simp add: processFunctionCall_def Let_def
        split: ValidToolResult.splits GroundResult.splits sum.splits)
qed

lemma processFunctionCalls_extends:
  "case processFunctionCalls env allowedTools screenshot tiles fcs cs of
     Inl (trace, e) \<Rightarrow> \<exists>rest. trace = cs_trace cs @ rest
   | Inr cs' \<Rightarrow> \<exists>rest. cs_trace cs' = cs_trace cs @ rest"
proof (induction fcs arbitrary: cs)
  case Nil
  show ?case by simp
next
  case (Cons fc fcs)
  show ?case
  proof (cases "processFunctionCall env allowedTools screenshot tiles fc cs")
    case (Inl thrown)
    with processFunctionCall_extends[where env = env and allowedTools = allowedTools and screenshot = screenshot and tiles = tiles and fc = fc and cs = cs]
    show ?thesis by simp
  next
    case (Inr cs1)
    with processFunctionCall_extends[where env = env and allowedTools = allowedTools and screenshot = screenshot and tiles = tiles and fc = fc and cs = cs]
    obtain rest1 where r1: "cs_trace cs1 = cs_trace cs @ rest1" by auto
    show ?thesis
      using Cons.IH[of cs1] Inr r1
      by (auto split: sum.splits prod.splits)
  qed
qed

lemma finalizeTurn_extends:
  "\<exists>rest. outcomeTrace (finalizeTurn env st cs) = cs_trace cs @ rest"
proof -
  let ?trace2 = "(if cs_toolResponseParts cs \<noteq> []
                    then cs_trace cs @
                           [PersistMessage \<lparr>apm_role = Tool,
                                            apm_parts = map PartOf (cs_toolResponseParts cs),
                                            apm_toolReview = None, apm_forDisplay = None\<rparr>]
                    else cs_trace cs) @ map PersistMessage (cs_toolReviewMessages cs)"
  obtain trace3 parts where
    d: "executeDelayed env (cs_delayedFunctionCalls cs) ?trace2 = (trace3, parts)"
    by (cases "executeDelayed env (cs_delayedFunctionCalls cs) ?trace2")
  with executeDelayed_extends[of env "cs_delayedFunctionCalls cs" ?trace2]
  obtain rest where "trace3 = ?trace2 @ rest" by auto
  then show ?thesis
    using d by (auto simp: finalizeTurn_def outcomeTrace_def caught_def Let_def split: sum.splits)
qed

lemma dispatch_extends:
  "\<exists>rest. outcomeTrace (dispatch env allowedTools screenshot tiles functionCalls st) =
            st_trace st @ rest"
proof (cases "functionCalls = []")
  case True
  then show ?thesis by (simp add: dispatch_def outcomeTrace_def)
next
  case False
  let ?cs = "\<lparr>cs_trace = st_trace st, cs_toolResponseParts = [], cs_pending = False,
               cs_toolReviewMessages = [], cs_delayedFunctionCalls = []\<rparr>"
  show ?thesis
  proof (cases "processFunctionCalls env allowedTools screenshot tiles functionCalls ?cs")
    case (Inl thrown)
    with processFunctionCalls_extends[where env = env and allowedTools = allowedTools and screenshot = screenshot and tiles = tiles and fcs = functionCalls and cs = ?cs]
    show ?thesis
      using False by (auto simp: dispatch_def outcomeTrace_def caught_def split: prod.splits)
  next
    case (Inr cs')
    with processFunctionCalls_extends[where env = env and allowedTools = allowedTools and screenshot = screenshot and tiles = tiles and fcs = functionCalls and cs = ?cs]
    obtain rest1 where "cs_trace cs' = st_trace st @ rest1" by auto
    moreover obtain rest2 where "outcomeTrace (finalizeTurn env st cs') = cs_trace cs' @ rest2"
      using finalizeTurn_extends by blast
    ultimately show ?thesis
      using False Inr by (simp add: dispatch_def)
  qed
qed

lemma retryWithContinue_extends:
  "\<exists>rest. outcomeTrace (retryWithContinue env allowedTools screenshot tiles st1) =
            requestTrace env (Some ''continue'') st1 @ rest"
proof -
  obtain st2 answer where p: "planNextStep env (Some ''continue'') st1 = (st2, answer)"
    by (cases "planNextStep env (Some ''continue'') st1")
  with planNextStep_extends[of env "Some ''continue''" st1]
  obtain rest1 where r1: "st_trace st2 = requestTrace env (Some ''continue'') st1 @ rest1"
    by auto
  show ?thesis
  proof (cases answer)
    case (Inl e)
    then show ?thesis
      using p r1 by (simp add: retryWithContinue_def caught_def outcomeTrace_def)
  next
    case (Inr calls)
    show ?thesis
    proof (cases calls)
      case None
      let ?st = "st2\<lparr>st_trace :=
                   st_trace st2 @
                   [SetSessionStatus Failed ''Model returned empty response even after retry.'']\<rparr>"
      obtain rest2 where
        "outcomeTrace (dispatch env allowedTools screenshot tiles [] ?st) = st_trace ?st @ rest2"
        using dispatch_extends by blast
      then show ?thesis
        using p r1 Inr None by (simp add: retryWithContinue_def)
    next
      case (Some functionCalls)
      obtain rest2 where
        "outcomeTrace (dispatch env allowedTools screenshot tiles functionCalls st2) =
           st_trace st2 @ rest2"
        using dispatch_extends by blast
      then show ?thesis
        using p r1 Inr Some by (simp add: retryWithContinue_def)
    qed
  qed
qed

text \<open>
  The contents of the planning request of the retry, from the state before the first
  request. The parts of the user turn occur twice: the history holds them since the
  first request, in the array that the retry pushes \<open>continue\<close> onto when the first
  request pushed a new message, and \<open>appendContent\<close> appends them once more.
\<close>

lemma second_request_contents:
  "requestContentsOf (Some ''continue'') (afterRequest None trace st) =
     (let before = historyBeforeRequest None st; parts = st_currentParts st
      in if before \<noteq> [] \<and> content_role (last before) = UserRole
         then butlast before @
                [(last before)\<lparr>content_parts :=
                   content_parts (last before) @ parts @ parts @ [textPart ''continue'']\<rparr>]
         else before @
                [\<lparr>content_role = UserRole,
                  content_parts = parts @ [textPart ''continue''] @ parts @ [textPart ''continue'']\<rparr>])"
  by (simp add: requestContentsOf_def afterRequest_def historyBeforeRequest_def userPartsOf_def
      appendContent_def Let_def butlast_append)

text \<open>
  Claim C10. When the stream of the planning model does not fail and its chunks carry
  no function call and no plain text (only thoughts, or nothing), \<open>planNextStep\<close>
  returns \<open>false\<close>: the events grow by the request and the streamed thoughts only, so
  no model message is persisted, and the state keeps the request contents as the
  history and nothing of the thoughts. The turn then retries: its events are the
  events before the planning, the first request, the streamed thoughts, the second
  planning request, and what follows it. The last message of the second request is
  from the user and ends in the text part \<open>continue\<close>; its contents are determined by
  the state before the first request, whatever was streamed. A stream with no chunks
  at all is the special case of no stream messages, so the two are treated alike.
\<close>

theorem thought_only_answer_is_empty:
  assumes "stream_failure (answerOf env None st) = None"
      and "\<forall>c \<in> set (stream_chunks (answerOf env None st)).
             chunk_functionCalls c = [] \<and>
             (\<forall>t. getResponseText c = Some (TextDelta t) \<longrightarrow> t = [])"
  shows "planNextStep env None st =
           (afterRequest None
              (requestTrace env None st @
               map (StreamMessage Model)
                 (List.map_filter getResponseText (stream_chunks (answerOf env None st)))) st,
            Inr None) \<and>
         planAndDispatch env allowedTools screenshot tiles st =
           retryWithContinue env allowedTools screenshot tiles
             (afterRequest None
                (requestTrace env None st @
                 map (StreamMessage Model)
                   (List.map_filter getResponseText (stream_chunks (answerOf env None st)))) st) \<and>
         (\<exists>rest.
            outcomeTrace (planAndDispatch env allowedTools screenshot tiles st) =
              st_trace st @
              [GenerateContentStream (env_model env) (requestContentsOf None st)] @
              map (StreamMessage Model)
                (List.map_filter getResponseText (stream_chunks (answerOf env None st))) @
              [GenerateContentStream (env_model env)
                 (let before = historyBeforeRequest None st; parts = st_currentParts st
                  in if before \<noteq> [] \<and> content_role (last before) = UserRole
                     then butlast before @
                            [(last before)\<lparr>content_parts :=
                               content_parts (last before) @ parts @ parts @
                               [textPart ''continue'']\<rparr>]
                     else before @
                            [\<lparr>content_role = UserRole,
                              content_parts = parts @ [textPart ''continue''] @ parts @
                                              [textPart ''continue'']\<rparr>])] @
              rest)"
proof -
  let ?trace1 = "requestTrace env None st @
                 map (StreamMessage Model)
                   (List.map_filter getResponseText (stream_chunks (answerOf env None st)))"
  let ?st1 = "afterRequest None ?trace1 st"
  from processStreamResponse_no_output[OF assms, of env Model None "requestTrace env None st"]
  obtain result where
    p: "processStreamResponse env Model (answerOf env None st) None (requestTrace env None st) =
          (?trace1, Inr result)"
    and empty: "sr_output result = []" "sr_functionCalls result = []"
    by blast
  have plan: "planNextStep env None st = (?st1, Inr None)"
    by (simp add: planNextStep_def p empty)
  have retry: "planAndDispatch env allowedTools screenshot tiles st =
                 retryWithContinue env allowedTools screenshot tiles ?st1"
    using plan by (simp add: planAndDispatch_def)
  obtain rest where
    r: "outcomeTrace (retryWithContinue env allowedTools screenshot tiles ?st1) =
       requestTrace env (Some ''continue'') ?st1 @ rest"
    using retryWithContinue_extends by blast
  have t1: "st_trace ?st1 = ?trace1"
    by (simp add: afterRequest_def)
  have "outcomeTrace (planAndDispatch env allowedTools screenshot tiles st) =
       st_trace st @
       [GenerateContentStream (env_model env) (requestContentsOf None st)] @
       map (StreamMessage Model)
         (List.map_filter getResponseText (stream_chunks (answerOf env None st))) @
       [GenerateContentStream (env_model env) (requestContentsOf (Some ''continue'') ?st1)] @
       rest"
    unfolding retry r
    by (simp add: requestTrace_def[of env "Some ''continue''"] t1)
       (simp add: requestTrace_def)
  then show ?thesis
    using plan retry unfolding second_request_contents by blast
qed

text \<open>
  The theorem for a model that streams two thoughts, at the start of a turn; and the
  whole run with that model: both of its planning requests are answered with thoughts
  alone, the second request carries \<open>continue\<close>, and no message of the model is
  persisted.
\<close>

theorem thought_only_answer_is_empty_witness:
  "stream_failure (answerOf (exampleEnv thoughtAnswer noGrounding) None exampleState) = None \<and>
   stream_chunks (answerOf (exampleEnv thoughtAnswer noGrounding) None exampleState) =
     [\<lparr>chunk_parts = [thoughtPart ''The menu is ''], chunk_functionCalls = []\<rparr>,
      \<lparr>chunk_parts = [thoughtPart ''at the top.''], chunk_functionCalls = []\<rparr>] \<and>
   getResponseText \<lparr>chunk_parts = [thoughtPart ''The menu is ''], chunk_functionCalls = []\<rparr> =
     Some (ThoughtDelta ''The menu is '') \<and>
   getResponseText \<lparr>chunk_parts = [thoughtPart ''at the top.''], chunk_functionCalls = []\<rparr> =
     Some (ThoughtDelta ''at the top.'') \<and>
   planNextStep (exampleEnv thoughtAnswer noGrounding) None exampleState =
     (afterRequest None
        [GenerateContentStream ''gemini-2.5-pro''
           [\<lparr>content_role = UserRole, content_parts = [textPart ''Open the file menu'']\<rparr>],
         StreamMessage Model (ThoughtDelta ''The menu is ''),
         StreamMessage Model (ThoughtDelta ''at the top.'')] exampleState,
      Inr None) \<and>
   (\<exists>rest.
      outcomeTrace (planAndDispatch (exampleEnv thoughtAnswer noGrounding) [] exampleScreenshot 3
                      exampleState) =
        [GenerateContentStream ''gemini-2.5-pro''
           [\<lparr>content_role = UserRole, content_parts = [textPart ''Open the file menu'']\<rparr>],
         StreamMessage Model (ThoughtDelta ''The menu is ''),
         StreamMessage Model (ThoughtDelta ''at the top.''),
         GenerateContentStream ''gemini-2.5-pro''
           [\<lparr>content_role = UserRole,
             content_parts = [textPart ''Open the file menu'', textPart ''continue'',
                              textPart ''Open the file menu'', textPart ''continue'']\<rparr>]] @ rest) \<and>
   map_option
     (\<lambda>result.
        (statusTransitions (result_trace result),
         map (\<lambda>contents. filter (\<lambda>part. part_text part = Some ''continue'')
                            (concat (map content_parts contents)))
           (planningRequests (result_trace result)),
         filter (\<lambda>event. case event of PersistMessage message \<Rightarrow> apm_role message = Model
                         | _ \<Rightarrow> False)
           (result_trace result)))
     (runAgent (exampleEnv thoughtAnswer noGrounding) [] (TextInput ''Open the file menu'') []) =
   Some ([(Running, ''Turn 1''),
          (Failed, ''Model returned empty response even after retry.''),
          (Stagnant, ''No more tool calls from model.'')],
         [[], [textPart ''continue'', textPart ''continue'']],
         [])"
proof -
  let ?env = "exampleEnv thoughtAnswer noGrounding"
  have run: "map_option
     (\<lambda>result.
        (statusTransitions (result_trace result),
         map (\<lambda>contents. filter (\<lambda>part. part_text part = Some ''continue'')
                            (concat (map content_parts contents)))
           (planningRequests (result_trace result)),
         filter (\<lambda>event. case event of PersistMessage message \<Rightarrow> apm_role message = Model
                         | _ \<Rightarrow> False)
           (result_trace result)))
     (runAgent ?env [] (TextInput ''Open the file menu'') []) =
   Some ([(Running, ''Turn 1''),
          (Failed, ''Model returned empty response even after retry.''),
          (Stagnant, ''No more tool calls from model.'')],
         [[], [textPart ''continue'', textPart ''continue'']],
         [])"
    by code_simp
  have answer: "answerOf ?env None exampleState = thoughtAnswer"
    by (simp add: answerOf_def exampleEnv_def)
  have texts:
    "getResponseText \<lparr>chunk_parts = [thoughtPart ''The menu is ''], chunk_functionCalls = []\<rparr> =
       Some (ThoughtDelta ''The menu is '')"
    "getResponseText \<lparr>chunk_parts = [thoughtPart ''at the top.''], chunk_functionCalls = []\<rparr> =
       Some (ThoughtDelta ''at the top.'')"
    by (simp_all add: getResponseText_def thoughtPart_def emptyPart_def)
  have contents: "requestContentsOf None exampleState =
     [\<lparr>content_role = UserRole, content_parts = [textPart ''Open the file menu'']\<rparr>]"
    by (simp add: requestContentsOf_def historyBeforeRequest_def userPartsOf_def
        appendContent_def exampleState_def)
  have request: "requestTrace ?env None exampleState =
     [GenerateContentStream ''gemini-2.5-pro''
        [\<lparr>content_role = UserRole, content_parts = [textPart ''Open the file menu'']\<rparr>]]"
    by (simp add: requestTrace_def contents) (simp add: exampleState_def exampleEnv_def)
  have model: "env_model ?env = ''gemini-2.5-pro''"
    by (simp add: exampleEnv_def)
  have before: "historyBeforeRequest None exampleState = []"
    by (simp add: historyBeforeRequest_def exampleState_def)
  have state: "st_trace exampleState = []"
    "st_currentParts exampleState = [textPart ''Open the file menu'']"
    by (simp_all add: exampleState_def)
  have chunks: "stream_chunks thoughtAnswer =
     [\<lparr>chunk_parts = [thoughtPart ''The menu is ''], chunk_functionCalls = []\<rparr>,
      \<lparr>chunk_parts = [thoughtPart ''at the top.''], chunk_functionCalls = []\<rparr>]"
    and failure: "stream_failure thoughtAnswer = None"
    by (simp_all add: thoughtAnswer_def)
  have h1: "stream_failure (answerOf ?env None exampleState) = None"
    by (simp only: answer failure)
  have h2: "\<forall>c \<in> set (stream_chunks (answerOf ?env None exampleState)).
             chunk_functionCalls c = [] \<and>
             (\<forall>t. getResponseText c = Some (TextDelta t) \<longrightarrow> t = [])"
    by (simp add: answer chunks texts)
  note t = thought_only_answer_is_empty
    [OF h1 h2, where allowedTools = "[]" and screenshot = exampleScreenshot and tiles = 3]
  from t have "planNextStep ?env None exampleState =
     (afterRequest None
        (requestTrace ?env None exampleState @
         map (StreamMessage Model)
           (List.map_filter getResponseText (stream_chunks (answerOf ?env None exampleState)))) exampleState,
      Inr None)"
    by blast
  then have plan: "planNextStep ?env None exampleState =
     (afterRequest None
        [GenerateContentStream ''gemini-2.5-pro''
           [\<lparr>content_role = UserRole, content_parts = [textPart ''Open the file menu'']\<rparr>],
         StreamMessage Model (ThoughtDelta ''The menu is ''),
         StreamMessage Model (ThoughtDelta ''at the top.'')] exampleState,
      Inr None)"
    by (simp add: answer request chunks List.map_filter_simps texts)
  from t obtain rest where
    "outcomeTrace (planAndDispatch ?env [] exampleScreenshot 3 exampleState) =
       st_trace exampleState @
       [GenerateContentStream (env_model ?env) (requestContentsOf None exampleState)] @
       map (StreamMessage Model)
         (List.map_filter getResponseText (stream_chunks (answerOf ?env None exampleState))) @
       [GenerateContentStream (env_model ?env)
          (let before = historyBeforeRequest None exampleState;
               parts = st_currentParts exampleState
           in if before \<noteq> [] \<and> content_role (last before) = UserRole
              then butlast before @
                     [(last before)\<lparr>content_parts :=
                        content_parts (last before) @ parts @ parts @
                        [textPart ''continue'']\<rparr>]
              else before @
                     [\<lparr>content_role = UserRole,
                       content_parts = parts @ [textPart ''continue''] @ parts @
                                       [textPart ''continue'']\<rparr>])] @
       rest"
    by blast
  then have "outcomeTrace (planAndDispatch ?env [] exampleScreenshot 3 exampleState) =
        [GenerateContentStream ''gemini-2.5-pro''
           [\<lparr>content_role = UserRole, content_parts = [textPart ''Open the file menu'']\<rparr>],
         StreamMessage Model (ThoughtDelta ''The menu is ''),
         StreamMessage Model (ThoughtDelta ''at the top.''),
         GenerateContentStream ''gemini-2.5-pro''
           [\<lparr>content_role = UserRole,
             content_parts = [textPart ''Open the file menu'', textPart ''continue'',
                              textPart ''Open the file menu'', textPart ''continue'']\<rparr>]] @ rest"
    by (simp add: answer contents chunks List.map_filter_simps texts model before state)
  then have trace: "\<exists>rest.
      outcomeTrace (planAndDispatch ?env [] exampleScreenshot 3 exampleState) =
        [GenerateContentStream ''gemini-2.5-pro''
           [\<lparr>content_role = UserRole, content_parts = [textPart ''Open the file menu'']\<rparr>],
         StreamMessage Model (ThoughtDelta ''The menu is ''),
         StreamMessage Model (ThoughtDelta ''at the top.''),
         GenerateContentStream ''gemini-2.5-pro''
           [\<lparr>content_role = UserRole,
             content_parts = [textPart ''Open the file menu'', textPart ''continue'',
                              textPart ''Open the file menu'', textPart ''continue'']\<rparr>]] @ rest"
    by blast
  show ?thesis
    using texts plan trace run by (simp add: answer chunks failure)
qed


subsection \<open>An answer that is empty twice\<close>

lemma twice_empty_ends_stagnant:
  assumes "planNextStep env None st = (st1, Inr None)"
      and "planNextStep env (Some ''continue'') st1 = (st2, Inr None)"
  shows "planAndDispatch env allowedTools screenshot tiles st =
           Finished \<lparr>result_trace =
                       st_trace st2 @
                       [SetSessionStatus Failed ''Model returned empty response even after retry.'',
                        SetSessionStatus Stagnant ''No more tool calls from model.''],
                     result_thrown = None\<rparr>"
  using assms by (simp add: planAndDispatch_def retryWithContinue_def dispatch_def)

text \<open>
  Claim C1 at a run whose planning model answers with an empty stream both times: the
  status \<open>error\<close> with its message is set, and the status \<open>stagnant\<close> with the message
  \<open>No more tool calls from model.\<close> is set after it, so \<open>error\<close> is not the last
  transition of the run.
\<close>

theorem empty_answers_end_stagnant:
  "map_option (\<lambda>result. statusTransitions (result_trace result))
     (runAgent (exampleEnv emptyAnswer noGrounding) [] (TextInput ''Open the file menu'') []) =
   Some [(Running, ''Turn 1''),
         (Failed, ''Model returned empty response even after retry.''),
         (Stagnant, ''No more tool calls from model.'')]"
  by code_simp

subsection \<open>Decisions that all reject\<close>

lemma seedDecisions_all_rejected:
  assumes "\<forall>d \<in> set decisions. td_response d = RejectOnce \<and> fc_id (td_functionCall d) \<noteq> []"
  shows "seedDecisions env decisions (trace, currentParts) =
           (trace @ map (\<lambda>d. PersistMessage (rejectMessage d)) decisions,
            Inr (currentParts @ map rejectPart decisions))"
  using assms
  by (induction decisions arbitrary: trace currentParts)
     (simp_all add: forgeToolResponse_def rejectMessage_def rejectPart_def)

text \<open>
  Claim C6, as the code has it. When the tool registry has the tool \<open>.computer\<close>, every
  decision rejects and every grounded function call of a decision has a non-empty id,
  the run returns, and its events are exactly: for each decision, in order, a persisted
  message of role \<open>tool\<close>, hidden from the user, whose single part is the function
  response with the id and name of the original function call and the response
  \<open>{error: "Rejected by user"}\<close>; and then the status \<open>stagnant\<close> with the message
  \<open>User rejected all tool calls.\<close> No screenshot is taken and no LLM is called.
\<close>

theorem all_rejected_ends_stagnant:
  assumes "env_hasComputerTool env"
      and "\<forall>d \<in> set decisions. td_response d = RejectOnce \<and> fc_id (td_functionCall d) \<noteq> []"
  shows "runAgent env historyMessages (ToolDecisions decisions) allowedTools =
           Some \<lparr>result_trace =
                   map (\<lambda>d. PersistMessage (rejectMessage d)) decisions @
                   [SetSessionStatus Stagnant ''User rejected all tool calls.''],
                 result_thrown = None\<rparr>"
proof -
  have "filter (\<lambda>d. td_response d \<noteq> RejectOnce) decisions = []"
    using assms(2) by (simp add: filter_empty_conv)
  then show ?thesis
    using assms(1) seedDecisions_all_rejected[OF assms(2), of env "[]" "[]"]
    by (simp add: runAgent_def)
qed

text \<open>The theorem for the rejection of one grounded click.\<close>

theorem all_rejected_ends_stagnant_witness:
  "env_hasComputerTool (exampleEnv emptyAnswer noGrounding) \<and>
   td_response rejectClick = RejectOnce \<and> fc_id (td_functionCall rejectClick) \<noteq> [] \<and>
   runAgent (exampleEnv emptyAnswer noGrounding) [] (ToolDecisions [rejectClick]) [] =
     Some \<lparr>result_trace =
             [PersistMessage
                \<lparr>apm_role = Tool,
                 apm_parts =
                   [PartOf (functionResponsePart
                      \<lparr>fr_id = ''computer_click-1'', fr_name = ''computer_click'',
                       fr_response = Error ''Rejected by user''\<rparr>)],
                 apm_toolReview = None, apm_forDisplay = Some False\<rparr>,
              SetSessionStatus Stagnant ''User rejected all tool calls.''],
           result_thrown = None\<rparr>"
proof -
  have a: "env_hasComputerTool (exampleEnv emptyAnswer noGrounding)"
    by (simp add: exampleEnv_def)
  have b: "\<forall>d \<in> set [rejectClick]. td_response d = RejectOnce \<and> fc_id (td_functionCall d) \<noteq> []"
    by (simp add: rejectClick_def groundedClick_def)
  show ?thesis
    using all_rejected_ends_stagnant [OF a b, of "[]" "[]"] a b
    by (simp add: rejectMessage_def rejectPart_def rejectClick_def clickCall_def)
qed

text \<open>
  Claim C6 as stated fails for a decision whose grounded function call has the empty
  string as its id (what the planning model sent is kept as it is): \<open>forgeToolResponse\<close>
  refuses it, \<open>runAgent\<close> throws, nothing is persisted and no status is set.
\<close>

theorem rejection_without_id_counterexample:
  "td_response (rejectClick\<lparr>td_functionCall := groundedClick\<lparr>fc_id := []\<rparr>\<rparr>) = RejectOnce \<and>
   runAgent (exampleEnv emptyAnswer noGrounding) []
     (ToolDecisions [rejectClick\<lparr>td_functionCall := groundedClick\<lparr>fc_id := []\<rparr>\<rparr>]) [] =
     Some \<lparr>result_trace = [],
           result_thrown = Some ''Function call id is required in tool response''\<rparr>"
  by (simp add: runAgent_def exampleEnv_def rejectClick_def groundedClick_def forgeToolResponse_def)

section \<open>Properties of the grounding\<close>

subsection \<open>What \<open>detectElement\<close> accepts\<close>















subsection \<open>A grounding that fails\<close>







section \<open>Thoughts in the recovered history\<close>

text \<open>
  The content that \<open>planNextStep\<close> appends to the history for the model has the text
  and the function calls of the answer and no thought.
\<close>

lemma modelContent_has_no_thought:
  "filter part_thought (content_parts (modelContent result)) = []"
  by (simp add: modelContent_def textPart_def functionCallPart_def emptyPart_def filter_empty_conv)

text \<open>
  Claim C2 at a log that holds a message of the user and an answer of the model with
  a thought and a text: \<open>recoverHistory\<close> turns the thought block into a part flagged
  as thought, and the run started with the recovered history sends that part to the
  planning model in each of its requests.
\<close>

theorem recovered_thought_is_sent:
  "recoverHistory (parseTable thoughtTable) (\<lambda>sessionId fileName. None) thoughtLog ''s1'' =
     Inr [\<lparr>content_role = UserRole, content_parts = [textPart ''hi'']\<rparr>,
          \<lparr>content_role = ModelRole,
           content_parts = [thoughtPart ''The menu is at the top.'', textPart ''Which menu?'']\<rparr>] \<and>
   map_option
     (\<lambda>result. map (\<lambda>contents. filter part_thought (concat (map content_parts contents)))
                  (planningRequests (result_trace result)))
     (runAgent (exampleEnv emptyAnswer noGrounding)
        [\<lparr>content_role = UserRole, content_parts = [textPart ''hi'']\<rparr>,
         \<lparr>content_role = ModelRole,
          content_parts = [thoughtPart ''The menu is at the top.'', textPart ''Which menu?'']\<rparr>]
        (TextInput ''The file menu'') []) =
     Some [[thoughtPart ''The menu is at the top.''], [thoughtPart ''The menu is at the top.'']]"
  by code_simp

end
